theory Spec2Isabelle
  imports Main "HOL-Library.Word"
begin

unbundle bit_operations_syntax

section \<open>Errors\<close>

text \<open>
  Modelled from the spec: the error kinds. \<^verbatim>\<open>error.hpp\<close> is not among the sources; the
  enumeration is the closed one of the specification (section 7), which holds every
  kind the sources name (\<^verbatim>\<open>Success\<close>, \<^verbatim>\<open>Unknown\<close>, \<^verbatim>\<open>InvalidMethod\<close>,
  \<^verbatim>\<open>ContainerAlreadyExists\<close>, \<^verbatim>\<open>ContainerDoesNotExist\<close>, \<^verbatim>\<open>VolumeDoesNotExist\<close>).
\<close>

datatype EError =
    Success | Unknown | InvalidMethod | InvalidValue | InvalidState
  | ContainerDoesNotExist | ContainerAlreadyExists | PermissionDenied | NotFound
  | Busy | Storage | Corrupted | FreezerTimeout | VolumeDoesNotExist

text \<open>\<^verbatim>\<open>TError\<close>: a kind and a message, read by \<^verbatim>\<open>GetError()\<close> and \<^verbatim>\<open>GetMsg()\<close>.\<close>

datatype TError = TError (GetError: EError) (GetMsg: string)

text \<open>\<^verbatim>\<open>TError::Success()\<close>.\<close>

definition TError_Success :: TError where
  "TError_Success = TError Success []"

text \<open>
  \<^verbatim>\<open>if (error)\<close>: the conversion of a \<^verbatim>\<open>TError\<close> to \<^verbatim>\<open>bool\<close>, whose definition is
  in the missing header, is true for every kind but \<^verbatim>\<open>Success\<close>.
\<close>

definition is_error :: "TError \<Rightarrow> bool" where
  "is_error e = (GetError e \<noteq> Success)"

section \<open>Traffic control (qdisc.cpp)\<close>

type_synonym handle = "32 word"

text \<open>A netlink link, \<^verbatim>\<open>TNlLink\<close>, of which the code reads the name.\<close>

datatype TNlLink = TNlLink (GetName: string)

text \<open>
  The netlink objects \<^verbatim>\<open>TNlClass\<close>, \<^verbatim>\<open>TNlHtb\<close> and \<^verbatim>\<open>TNlCgFilter\<close> are not among the
  sources. Each is built from a link and two handles and then asked one thing, so each
  call is a function of the link, the two handles, the call's arguments and the kernel
  state \<open>'k\<close>. Every call, a read included, returns the kernel state after it.
  \<^verbatim>\<open>TcRootHandle()\<close> is a constant of the missing header.
\<close>

record ('k, 'stat) netlink =
  class_Exists :: "TNlLink \<Rightarrow> handle \<Rightarrow> handle \<Rightarrow> 'k \<Rightarrow> bool \<times> 'k"
  class_GetStat :: "TNlLink \<Rightarrow> handle \<Rightarrow> handle \<Rightarrow> 'stat \<Rightarrow> 'k \<Rightarrow> (TError \<times> 64 word) \<times> 'k"
  class_Create :: "TNlLink \<Rightarrow> handle \<Rightarrow> handle \<Rightarrow> 32 word \<Rightarrow> 32 word \<Rightarrow> 32 word \<Rightarrow> 'k \<Rightarrow> TError \<times> 'k"
  class_Remove :: "TNlLink \<Rightarrow> handle \<Rightarrow> handle \<Rightarrow> 'k \<Rightarrow> TError \<times> 'k"
  htb_Create :: "TNlLink \<Rightarrow> handle \<Rightarrow> handle \<Rightarrow> handle \<Rightarrow> 'k \<Rightarrow> TError \<times> 'k"
  htb_Remove :: "TNlLink \<Rightarrow> handle \<Rightarrow> handle \<Rightarrow> 'k \<Rightarrow> TError \<times> 'k"
  filter_Exists :: "TNlLink \<Rightarrow> handle \<Rightarrow> handle \<Rightarrow> 'k \<Rightarrow> bool \<times> 'k"
  filter_Create :: "TNlLink \<Rightarrow> handle \<Rightarrow> handle \<Rightarrow> 'k \<Rightarrow> TError \<times> 'k"
  filter_Remove :: "TNlLink \<Rightarrow> handle \<Rightarrow> handle \<Rightarrow> 'k \<Rightarrow> TError \<times> 'k"
  TcRootHandle :: handle

text \<open>
  \<^verbatim>\<open>TQdisc\<close> holds its links, its handle and its default class; \<^verbatim>\<open>TTclass\<close> holds
  its handle and one of two parents, \<^verbatim>\<open>ParentQdisc\<close> or \<^verbatim>\<open>ParentTclass\<close>;
  \<^verbatim>\<open>TFilter\<close> holds its parent qdisc.
\<close>

datatype TQdisc =
  TQdisc (qdisc_Link: "TNlLink list") (qdisc_Handle: handle) (qdisc_DefClass: handle)

datatype TTclass = TTclass (tclass_Parent: tclass_parent) (tclass_Handle: handle)
  and tclass_parent = ParentQdisc TQdisc | ParentTclass TTclass

datatype TFilter = TFilter (filter_Parent: TQdisc)

definition TQdisc_GetLink :: "TQdisc \<Rightarrow> TNlLink list" where
  "TQdisc_GetLink q = qdisc_Link q"

definition TQdisc_GetHandle :: "TQdisc \<Rightarrow> handle" where
  "TQdisc_GetHandle q = qdisc_Handle q"

fun TTclass_GetLink :: "TTclass \<Rightarrow> TNlLink list" where
  "TTclass_GetLink (TTclass (ParentQdisc q) h) = TQdisc_GetLink q"
| "TTclass_GetLink (TTclass (ParentTclass t) h) = TTclass_GetLink t"

text \<open>\<^verbatim>\<open>enabled\<close> is \<^verbatim>\<open>config().network().enabled()\<close>.\<close>

definition TTclass_GetParent :: "bool \<Rightarrow> TTclass \<Rightarrow> handle" where
  "TTclass_GetParent enabled t =
     (if \<not> enabled then 0
      else (case tclass_Parent t of
              ParentQdisc q \<Rightarrow> TQdisc_GetHandle q
            | ParentTclass p \<Rightarrow> tclass_Handle p))"

definition TTclass_Exists ::
  "('k, 'stat) netlink \<Rightarrow> bool \<Rightarrow> TTclass \<Rightarrow> TNlLink \<Rightarrow> 'k \<Rightarrow> bool \<times> 'k" where
  "TTclass_Exists nl enabled t link k =
     class_Exists nl link (TTclass_GetParent enabled t) (tclass_Handle t) k"

text \<open>The loop of \<^verbatim>\<open>TTclass::GetStat\<close> over the links, \<open>m\<close> the caller's map.\<close>

fun TTclass_GetStat_loop ::
  "('k, 'stat) netlink \<Rightarrow> bool \<Rightarrow> TTclass \<Rightarrow> 'stat \<Rightarrow> TNlLink list \<Rightarrow>
   (string \<rightharpoonup> 64 word) \<Rightarrow> 'k \<Rightarrow> (TError \<times> (string \<rightharpoonup> 64 word)) \<times> 'k" where
  "TTclass_GetStat_loop nl enabled t stat [] m k = ((TError_Success, m), k)"
| "TTclass_GetStat_loop nl enabled t stat (link # links) m k =
     (case class_GetStat nl link (TTclass_GetParent enabled t) (tclass_Handle t) stat k of
        ((error, val), k') \<Rightarrow>
          if is_error error then ((error, m), k')
          else TTclass_GetStat_loop nl enabled t stat links (m(GetName link \<mapsto> val)) k')"

definition TTclass_GetStat ::
  "('k, 'stat) netlink \<Rightarrow> bool \<Rightarrow> TTclass \<Rightarrow> 'stat \<Rightarrow>
   (string \<rightharpoonup> 64 word) \<Rightarrow> 'k \<Rightarrow> (TError \<times> (string \<rightharpoonup> 64 word)) \<times> 'k" where
  "TTclass_GetStat nl enabled t stat m k =
     (if \<not> enabled then ((TError Unknown ''Network support is disabled'', m), k)
      else TTclass_GetStat_loop nl enabled t stat (TTclass_GetLink t) m k)"

fun TTclass_Create_loop ::
  "('k, 'stat) netlink \<Rightarrow> bool \<Rightarrow> TTclass \<Rightarrow> 32 word \<Rightarrow> 32 word \<Rightarrow> 32 word \<Rightarrow>
   TNlLink list \<Rightarrow> 'k \<Rightarrow> TError \<times> 'k" where
  "TTclass_Create_loop nl enabled t prio rate ceil [] k = (TError_Success, k)"
| "TTclass_Create_loop nl enabled t prio rate ceil (link # links) k =
     (case class_Create nl link (TTclass_GetParent enabled t) (tclass_Handle t) prio rate ceil k of
        (error, k') \<Rightarrow>
          if is_error error then (error, k')
          else TTclass_Create_loop nl enabled t prio rate ceil links k')"

definition TTclass_Create ::
  "('k, 'stat) netlink \<Rightarrow> bool \<Rightarrow> TTclass \<Rightarrow> 32 word \<Rightarrow> 32 word \<Rightarrow> 32 word \<Rightarrow>
   'k \<Rightarrow> TError \<times> 'k" where
  "TTclass_Create nl enabled t prio rate ceil k =
     (if \<not> enabled then (TError_Success, k)
      else TTclass_Create_loop nl enabled t prio rate ceil (TTclass_GetLink t) k)"

text \<open>
  The loop of \<^verbatim>\<open>TTclass::Remove\<close>: at a link on which the class does not exist the
  function returns success, and the links after it are not visited.
\<close>

fun TTclass_Remove_loop ::
  "('k, 'stat) netlink \<Rightarrow> bool \<Rightarrow> TTclass \<Rightarrow> TNlLink list \<Rightarrow> 'k \<Rightarrow> TError \<times> 'k" where
  "TTclass_Remove_loop nl enabled t [] k = (TError_Success, k)"
| "TTclass_Remove_loop nl enabled t (link # links) k =
     (case TTclass_Exists nl enabled t link k of
        (ex, k1) \<Rightarrow>
          if \<not> ex then (TError_Success, k1)
          else (case class_Remove nl link (TTclass_GetParent enabled t) (tclass_Handle t) k1 of
                  (error, k2) \<Rightarrow>
                    if is_error error then (error, k2)
                    else TTclass_Remove_loop nl enabled t links k2))"

definition TTclass_Remove ::
  "('k, 'stat) netlink \<Rightarrow> bool \<Rightarrow> TTclass \<Rightarrow> 'k \<Rightarrow> TError \<times> 'k" where
  "TTclass_Remove nl enabled t k =
     (if \<not> enabled then (TError_Success, k)
      else TTclass_Remove_loop nl enabled t (TTclass_GetLink t) k)"

fun TQdisc_Create_loop ::
  "('k, 'stat) netlink \<Rightarrow> TQdisc \<Rightarrow> TNlLink list \<Rightarrow> 'k \<Rightarrow> TError \<times> 'k" where
  "TQdisc_Create_loop nl q [] k = (TError_Success, k)"
| "TQdisc_Create_loop nl q (link # links) k =
     (case htb_Create nl link (TcRootHandle nl) (qdisc_Handle q) (qdisc_DefClass q) k of
        (error, k') \<Rightarrow>
          if is_error error then (error, k') else TQdisc_Create_loop nl q links k')"

definition TQdisc_Create :: "('k, 'stat) netlink \<Rightarrow> bool \<Rightarrow> TQdisc \<Rightarrow> 'k \<Rightarrow> TError \<times> 'k" where
  "TQdisc_Create nl enabled q k =
     (if \<not> enabled then (TError_Success, k)
      else TQdisc_Create_loop nl q (TQdisc_GetLink q) k)"

fun TQdisc_Remove_loop ::
  "('k, 'stat) netlink \<Rightarrow> TQdisc \<Rightarrow> TNlLink list \<Rightarrow> 'k \<Rightarrow> TError \<times> 'k" where
  "TQdisc_Remove_loop nl q [] k = (TError_Success, k)"
| "TQdisc_Remove_loop nl q (link # links) k =
     (case htb_Remove nl link (TcRootHandle nl) (qdisc_Handle q) k of
        (error, k') \<Rightarrow>
          if is_error error then (error, k') else TQdisc_Remove_loop nl q links k')"

definition TQdisc_Remove :: "('k, 'stat) netlink \<Rightarrow> bool \<Rightarrow> TQdisc \<Rightarrow> 'k \<Rightarrow> TError \<times> 'k" where
  "TQdisc_Remove nl enabled q k =
     (if \<not> enabled then (TError_Success, k)
      else TQdisc_Remove_loop nl q (TQdisc_GetLink q) k)"

definition TFilter_GetLink :: "TFilter \<Rightarrow> TNlLink list" where
  "TFilter_GetLink f = TQdisc_GetLink (filter_Parent f)"

definition TFilter_Exists ::
  "('k, 'stat) netlink \<Rightarrow> TFilter \<Rightarrow> TNlLink \<Rightarrow> 'k \<Rightarrow> bool \<times> 'k" where
  "TFilter_Exists nl f link k =
     filter_Exists nl link (TQdisc_GetHandle (filter_Parent f)) 1 k"

fun TFilter_Create_loop ::
  "('k, 'stat) netlink \<Rightarrow> TFilter \<Rightarrow> TNlLink list \<Rightarrow> 'k \<Rightarrow> TError \<times> 'k" where
  "TFilter_Create_loop nl f [] k = (TError_Success, k)"
| "TFilter_Create_loop nl f (link # links) k =
     (case filter_Create nl link (TQdisc_GetHandle (filter_Parent f)) 1 k of
        (error, k') \<Rightarrow>
          if is_error error then (error, k') else TFilter_Create_loop nl f links k')"

definition TFilter_Create :: "('k, 'stat) netlink \<Rightarrow> bool \<Rightarrow> TFilter \<Rightarrow> 'k \<Rightarrow> TError \<times> 'k" where
  "TFilter_Create nl enabled f k =
     (if \<not> enabled then (TError_Success, k)
      else TFilter_Create_loop nl f (TFilter_GetLink f) k)"

fun TFilter_Remove_loop ::
  "('k, 'stat) netlink \<Rightarrow> TFilter \<Rightarrow> TNlLink list \<Rightarrow> 'k \<Rightarrow> TError \<times> 'k" where
  "TFilter_Remove_loop nl f [] k = (TError_Success, k)"
| "TFilter_Remove_loop nl f (link # links) k =
     (case TFilter_Exists nl f link k of
        (ex, k1) \<Rightarrow>
          if \<not> ex then (TError_Success, k1)
          else (case filter_Remove nl link (TQdisc_GetHandle (filter_Parent f)) 1 k1 of
                  (error, k2) \<Rightarrow>
                    if is_error error then (error, k2) else TFilter_Remove_loop nl f links k2))"

definition TFilter_Remove :: "('k, 'stat) netlink \<Rightarrow> bool \<Rightarrow> TFilter \<Rightarrow> 'k \<Rightarrow> TError \<times> 'k" where
  "TFilter_Remove nl enabled f k =
     (if \<not> enabled then (TError_Success, k)
      else TFilter_Remove_loop nl f (TFilter_GetLink f) k)"

subsection \<open>A kernel to run the traffic-control code on\<close>

text \<open>
  A kernel that holds the installed classes as triples of link, parent handle and
  handle, and counts every call made to it, reads included. Creating adds the triple,
  removing deletes it, and both succeed; the qdisc and filter calls only count.
\<close>

record tc_kernel =
  classes :: "(TNlLink \<times> handle \<times> handle) list"
  calls :: nat

definition counted :: "tc_kernel \<Rightarrow> tc_kernel" where
  "counted k = k\<lparr>calls := Suc (calls k)\<rparr>"

definition tc_netlink :: "(tc_kernel, nat) netlink" where
  "tc_netlink = \<lparr>
     class_Exists = (\<lambda>l p h k. ((l, p, h) \<in> set (classes k), counted k)),
     class_GetStat = (\<lambda>l p h s k. ((TError_Success, 0), counted k)),
     class_Create = (\<lambda>l p h pr r c k.
        (TError_Success, counted (k\<lparr>classes := (l, p, h) # classes k\<rparr>))),
     class_Remove = (\<lambda>l p h k.
        (TError_Success, counted (k\<lparr>classes := removeAll (l, p, h) (classes k)\<rparr>))),
     htb_Create = (\<lambda>l r h d k. (TError_Success, counted k)),
     htb_Remove = (\<lambda>l r h k. (TError_Success, counted k)),
     filter_Exists = (\<lambda>l p h k. (False, counted k)),
     filter_Create = (\<lambda>l p h k. (TError_Success, counted k)),
     filter_Remove = (\<lambda>l p h k. (TError_Success, counted k)),
     TcRootHandle = 0x10000 \<rparr>"

definition eth0 :: TNlLink where "eth0 = TNlLink ''eth0''"
definition eth1 :: TNlLink where "eth1 = TNlLink ''eth1''"

text \<open>A qdisc on two links and a class under it.\<close>

definition qdisc2 :: TQdisc where
  "qdisc2 = TQdisc [eth0, eth1] 0x10000 0x10002"

definition tclass2 :: TTclass where
  "tclass2 = TTclass (ParentQdisc qdisc2) 0x10003"

text \<open>The kernel in which the class of \<open>tclass2\<close> is installed on \<open>eth1\<close> only.\<close>

definition kernel_eth1_only :: tc_kernel where
  "kernel_eth1_only = \<lparr> classes = [(eth1, 0x10000, 0x10003)], calls = 0 \<rparr>"

section \<open>Cgroup subsystems (subsystem.cpp)\<close>

subsection \<open>The registry of adapters\<close>

text \<open>
  The adapter classes: the generic \<^verbatim>\<open>TSubsystem\<close>, built with its name, and the
  classes derived from it.
\<close>

datatype subsystem_object =
    TMemorySubsystem | TFreezerSubsystem | TCpuSubsystem | TCpuacctSubsystem
  | TSubsystem string

text \<open>
  The static map \<^verbatim>\<open>subsystems\<close> from names to shared pointers, and the objects the
  pointers refer to: a pointer is the position of its object among the objects made so
  far, so two pointers are the same pointer exactly when they are the same number.
\<close>

record registry =
  subsystems :: "string \<rightharpoonup> nat"
  objects :: "subsystem_object list"

definition make_shared :: "subsystem_object \<Rightarrow> registry \<Rightarrow> nat \<times> registry" where
  "make_shared obj r = (length (objects r), r\<lparr>objects := objects r @ [obj]\<rparr>)"

definition object_at :: "registry \<Rightarrow> nat \<Rightarrow> subsystem_object option" where
  "object_at r p = (if p < length (objects r) then Some (objects r ! p) else None)"

text \<open>\<^verbatim>\<open>subsystems[name] = make_shared<...>(...)\<close>.\<close>

definition assign_new :: "string \<Rightarrow> subsystem_object \<Rightarrow> registry \<Rightarrow> registry" where
  "assign_new name obj r =
     (case make_shared obj r of (p, r') \<Rightarrow> r'\<lparr>subsystems := (subsystems r')(name \<mapsto> p)\<rparr>)"

text \<open>\<^verbatim>\<open>TSubsystem::Get\<close>; the pointer returned is \<^verbatim>\<open>subsystems[name]\<close>.\<close>

definition TSubsystem_Get :: "string \<Rightarrow> registry \<Rightarrow> nat option \<times> registry" where
  "TSubsystem_Get name r =
     (let r1 =
        (if subsystems r name = None then
           (if name = ''memory'' then assign_new name TMemorySubsystem r
            else if name = ''freezer'' then assign_new name TFreezerSubsystem r
            else if name = ''cpu'' then assign_new name TCpuSubsystem r
            else assign_new name (TSubsystem name) r)
         else r)
      in (subsystems r1 name, r1))"

text \<open>
  The typed accessors cast the pointer \<^verbatim>\<open>Get\<close> returns; a \<^verbatim>\<open>static_pointer_cast\<close>
  changes neither the pointer nor the object it refers to.
\<close>

definition TSubsystem_Memory :: "registry \<Rightarrow> nat option \<times> registry" where
  "TSubsystem_Memory r = TSubsystem_Get ''memory'' r"

definition TSubsystem_Freezer :: "registry \<Rightarrow> nat option \<times> registry" where
  "TSubsystem_Freezer r = TSubsystem_Get ''freezer'' r"

definition TSubsystem_Cpu :: "registry \<Rightarrow> nat option \<times> registry" where
  "TSubsystem_Cpu r = TSubsystem_Get ''cpu'' r"

definition TSubsystem_Cpuacct :: "registry \<Rightarrow> nat option \<times> registry" where
  "TSubsystem_Cpuacct r = TSubsystem_Get ''cpuacct'' r"

text \<open>The registry when the daemon starts: no adapter has been made.\<close>

definition no_subsystems :: registry where
  "no_subsystems = \<lparr> subsystems = Map.empty, objects = [] \<rparr>"

text \<open>The class of the object behind a pointer that \<^verbatim>\<open>Get\<close> returned.\<close>

definition pointee :: "nat option \<times> registry \<Rightarrow> subsystem_object option" where
  "pointee pr = (case fst pr of None \<Rightarrow> None | Some p \<Rightarrow> object_at (snd pr) p)"

subsection \<open>The freezer\<close>

text \<open>
  The state the freezer code acts on: the kernel, and the lines given to
  \<^verbatim>\<open>TLogger::LogError\<close>.
\<close>

record 'k world =
  kernel :: 'k
  logged :: "(TError \<times> string) list"

definition LogError :: "TError \<Rightarrow> string \<Rightarrow> 'k world \<Rightarrow> 'k world" where
  "LogError error s w = w\<lparr>logged := logged w @ [(error, s)]\<rparr>"

text \<open>
  A cgroup, \<^verbatim>\<open>TCgroup\<close> (not among the sources): reading a knob gives an error and
  the string left in the caller's variable, writing one gives an error; both give the
  kernel state after the call.
\<close>

record 'k TCgroup =
  GetKnobValue :: "string \<Rightarrow> 'k \<Rightarrow> (TError \<times> string) \<times> 'k"
  SetKnobValue :: "string \<Rightarrow> string \<Rightarrow> 'k \<Rightarrow> TError \<times> 'k"
  Relpath :: string

text \<open>
  The type of \<^verbatim>\<open>RetryFailed\<close> as \<^verbatim>\<open>util/unix.hpp\<close> declares it: it takes the
  number of tries, the interval in milliseconds and a handler that returns an
  \<^verbatim>\<open>int\<close>, and returns an \<^verbatim>\<open>int\<close>; \<open>'w\<close> is the state the handler acts on.
\<close>

type_synonym 'w retry = "int \<Rightarrow> int \<Rightarrow> ('w \<Rightarrow> int \<times> 'w) \<Rightarrow> 'w \<Rightarrow> int \<times> 'w"

text \<open>
  Modelled from the spec: \<^verbatim>\<open>RetryFailed\<close>, which \<^verbatim>\<open>util/unix.hpp\<close> declares and
  whose body is not among the sources. The specification calls it a bounded retry with
  a fixed interval: the handler is called up to \<open>ntimes\<close> times, \<open>timeoMs\<close> milliseconds
  apart, until it returns 0. The result is 0 then, and otherwise the last result of the
  handler (\<open>-1\<close> when it was never called). \<open>sleep\<close> is the passing of the given
  milliseconds.
\<close>

fun RetryFailed_loop ::
  "nat \<Rightarrow> int \<Rightarrow> ('w \<Rightarrow> int \<times> 'w) \<Rightarrow> (int \<Rightarrow> 'w \<Rightarrow> 'w) \<Rightarrow> int \<Rightarrow> 'w \<Rightarrow> int \<times> 'w" where
  "RetryFailed_loop 0 timeoMs handler sleep ret w = (ret, w)"
| "RetryFailed_loop (Suc n) timeoMs handler sleep ret w =
     (case handler w of
        (r, w1) \<Rightarrow>
          if r = 0 then (0, w1)
          else RetryFailed_loop n timeoMs handler sleep r (sleep timeoMs w1))"

definition RetryFailed :: "(int \<Rightarrow> 'w \<Rightarrow> 'w) \<Rightarrow> 'w retry" where
  "RetryFailed sleep ntimes timeoMs handler w =
     RetryFailed_loop (nat ntimes) timeoMs handler sleep (- 1) w"

text \<open>The passing of time acts on the kernel.\<close>

definition world_sleep :: "(int \<Rightarrow> 'k \<Rightarrow> 'k) \<Rightarrow> int \<Rightarrow> 'k world \<Rightarrow> 'k world" where
  "world_sleep pause ms w = w\<lparr>kernel := pause ms (kernel w)\<rparr>"

text \<open>
  The handler that \<^verbatim>\<open>WaitState\<close> gives to \<^verbatim>\<open>RetryFailed\<close>: it reads
  \<^verbatim>\<open>freezer.state\<close>, logs a failed read, and returns whether the string read differs
  from the awaited one.
\<close>

definition WaitState_handler :: "'k TCgroup \<Rightarrow> string \<Rightarrow> 'k world \<Rightarrow> int \<times> 'k world" where
  "WaitState_handler cg state w =
     (case GetKnobValue cg ''freezer.state'' (kernel w) of
        ((error, s), k') \<Rightarrow>
          (let w1 = w\<lparr>kernel := k'\<rparr>;
               w2 = (if is_error error then LogError error ''Can't freeze cgroup'' w1 else w1)
           in (if s \<noteq> state then 1 else 0, w2)))"

text \<open>
  \<^verbatim>\<open>TFreezerSubsystem::WaitState\<close>. \<open>retry\<close> is \<^verbatim>\<open>RetryFailed\<close>; \<open>timeout_s\<close> is the
  constant \<^verbatim>\<open>FREEZER_WAIT_TIMEOUT_S\<close> of a header that is not among the sources.
\<close>

definition WaitState ::
  "'k world retry \<Rightarrow> int \<Rightarrow> 'k TCgroup \<Rightarrow> string \<Rightarrow> 'k world \<Rightarrow> TError \<times> 'k world" where
  "WaitState retry timeout_s cg state w =
     (case retry (timeout_s * 10) 100 (WaitState_handler cg state) w of
        (ret, w1) \<Rightarrow>
          if ret \<noteq> 0 then
            (let error = TError Unknown (''Can't wait for freezer state '' @ state)
             in (error, LogError error (Relpath cg) w1))
          else (TError_Success, w1))"

definition FROZEN_line :: string where
  "FROZEN_line = ''FROZEN'' @ [CHR 0x0A]"

definition THAWED_line :: string where
  "THAWED_line = ''THAWED'' @ [CHR 0x0A]"

definition Freeze ::
  "'k world retry \<Rightarrow> int \<Rightarrow> 'k TCgroup \<Rightarrow> 'k world \<Rightarrow> TError \<times> 'k world" where
  "Freeze retry timeout_s cg w =
     (case SetKnobValue cg ''freezer.state'' ''FROZEN'' (kernel w) of
        (error, k1) \<Rightarrow>
          if is_error error then (error, w\<lparr>kernel := k1\<rparr>)
          else WaitState retry timeout_s cg FROZEN_line (w\<lparr>kernel := k1\<rparr>))"

definition Unfreeze ::
  "'k world retry \<Rightarrow> int \<Rightarrow> 'k TCgroup \<Rightarrow> 'k world \<Rightarrow> TError \<times> 'k world" where
  "Unfreeze retry timeout_s cg w =
     (case SetKnobValue cg ''freezer.state'' ''THAWED'' (kernel w) of
        (error, k1) \<Rightarrow>
          if is_error error then (error, w\<lparr>kernel := k1\<rparr>)
          else WaitState retry timeout_s cg THAWED_line (w\<lparr>kernel := k1\<rparr>))"

text \<open>
  The polls seen from the kernel alone: the kernel state in which the poll of index
  \<open>n\<close> (from 0) reads the knob, each earlier poll followed by 100 milliseconds, and the
  string that poll reads.
\<close>

definition poll_kernel :: "'k TCgroup \<Rightarrow> (int \<Rightarrow> 'k \<Rightarrow> 'k) \<Rightarrow> nat \<Rightarrow> 'k \<Rightarrow> 'k" where
  "poll_kernel cg pause n k =
     ((\<lambda>k. pause 100 (snd (GetKnobValue cg ''freezer.state'' k))) ^^ n) k"

definition poll_reading :: "'k TCgroup \<Rightarrow> (int \<Rightarrow> 'k \<Rightarrow> 'k) \<Rightarrow> nat \<Rightarrow> 'k \<Rightarrow> string" where
  "poll_reading cg pause n k =
     snd (fst (GetKnobValue cg ''freezer.state'' (poll_kernel cg pause n k)))"

text \<open>
  A cgroup whose kernel never finishes freezing: the kernel state is the time in
  milliseconds, every write succeeds and every read gives \<^verbatim>\<open>FREEZING\<close>.
\<close>

definition stuck_cgroup :: "int TCgroup" where
  "stuck_cgroup = \<lparr>
     GetKnobValue = (\<lambda>knob k. ((TError_Success, ''FREEZING'' @ [CHR 0x0A]), k)),
     SetKnobValue = (\<lambda>knob v k. (TError_Success, k)),
     Relpath = ''porto/a'' \<rparr>"

definition clock_pause :: "int \<Rightarrow> int \<Rightarrow> int" where
  "clock_pause ms k = k + ms"

text \<open>
  A cgroup that is frozen 250 milliseconds after the write: reads before that give
  \<^verbatim>\<open>FREEZING\<close>.
\<close>

definition slow_cgroup :: "int TCgroup" where
  "slow_cgroup = \<lparr>
     GetKnobValue = (\<lambda>knob k.
        ((TError_Success, (if 250 \<le> k then ''FROZEN'' else ''FREEZING'') @ [CHR 0x0A]), k)),
     SetKnobValue = (\<lambda>knob v k. (TError_Success, 0)),
     Relpath = ''porto/b'' \<rparr>"

section \<open>The RPC dispatcher (rpc.cpp)\<close>

subsection \<open>Faults\<close>

text \<open>
  What a call can throw, by the \<^verbatim>\<open>catch\<close> clause of \<^verbatim>\<open>HandleRpcRequest\<close> that takes
  it: a \<^verbatim>\<open>std::bad_alloc\<close>, a \<^verbatim>\<open>std::string\<close>, another \<^verbatim>\<open>std::exception\<close> (with what
  \<^verbatim>\<open>what()\<close> returns), or anything else.
\<close>

datatype fault = bad_alloc | thrown_string string | std_exception string | other_fault

text \<open>
  How a call ends: it returns, it throws, or it dereferences a null pointer, after
  which the C++ program has no defined behaviour.
\<close>

datatype 'a outcome = Returned 'a | Thrown fault | NullDeref

subsection \<open>Messages\<close>

text \<open>
  The messages of \<^verbatim>\<open>rpc.proto\<close> (not among the sources), with the fields the handlers
  read and write. The requests that carry a name only share one type.
\<close>

datatype TContainerNameRequest = TContainerNameRequest (req_name: string)

type_synonym TContainerCreateRequest = TContainerNameRequest
type_synonym TContainerDestroyRequest = TContainerNameRequest
type_synonym TContainerStartRequest = TContainerNameRequest
type_synonym TContainerStopRequest = TContainerNameRequest
type_synonym TContainerPauseRequest = TContainerNameRequest
type_synonym TContainerResumeRequest = TContainerNameRequest
type_synonym TVolumeDestroyRequest = TContainerNameRequest

datatype TContainerGetPropertyRequest =
  TContainerGetPropertyRequest (getproperty_name: string) (getproperty_property: string)

datatype TContainerSetPropertyRequest =
  TContainerSetPropertyRequest (setproperty_name: string) (setproperty_property: string)
    (setproperty_value: string)

datatype TContainerGetDataRequest =
  TContainerGetDataRequest (getdata_name: string) (getdata_data: string)

datatype TContainerKillRequest = TContainerKillRequest (kill_name: string) (kill_sig: "32 word")

datatype TVolumeCreateRequest =
  TVolumeCreateRequest (createvolume_name: string) (createvolume_source: string)
    (createvolume_quota: string) (createvolume_flags: string)

text \<open>
  The request: each variant is an optional field, \<^verbatim>\<open>has_create()\<close> is
  \<open>req_create req \<noteq> None\<close>, and any number of them can be set.
\<close>

record TContainerRequest =
  req_create :: "TContainerCreateRequest option"
  req_destroy :: "TContainerDestroyRequest option"
  req_list :: "unit option"
  req_getproperty :: "TContainerGetPropertyRequest option"
  req_setproperty :: "TContainerSetPropertyRequest option"
  req_getdata :: "TContainerGetDataRequest option"
  req_start :: "TContainerStartRequest option"
  req_stop :: "TContainerStopRequest option"
  req_pause :: "TContainerPauseRequest option"
  req_resume :: "TContainerResumeRequest option"
  req_propertylist :: "unit option"
  req_datalist :: "unit option"
  req_kill :: "TContainerKillRequest option"
  req_version :: "unit option"
  req_createvolume :: "TVolumeCreateRequest option"
  req_destroyvolume :: "TVolumeDestroyRequest option"
  req_listvolumes :: "unit option"

datatype TListEntry = TListEntry (entry_name: string) (entry_desc: string)

datatype TVersion = TVersion (version_tag: string) (version_revision: string)

datatype TVolumeDescription =
  TVolumeDescription (vd_name: string) (vd_source: string) (vd_quota: string) (vd_flags: string)

text \<open>The response: the error kind, the message, and one optional field per payload.\<close>

record TContainerResponse =
  rsp_error :: "EError option"
  rsp_errormsg :: "string option"
  rsp_list :: "string list option"
  rsp_getproperty :: "string option"
  rsp_getdata :: "string option"
  rsp_propertylist :: "TListEntry list option"
  rsp_datalist :: "TListEntry list option"
  rsp_version :: "TVersion option"
  rsp_volumelist :: "TVolumeDescription list option"

text \<open>\<^verbatim>\<open>rsp.Clear()\<close>: no field is set.\<close>

definition Clear :: TContainerResponse where
  "Clear = \<lparr> rsp_error = None, rsp_errormsg = None, rsp_list = None,
     rsp_getproperty = None, rsp_getdata = None, rsp_propertylist = None,
     rsp_datalist = None, rsp_version = None, rsp_volumelist = None \<rparr>"

text \<open>A repeated field that is not set yet reads as the empty list.\<close>

definition repeated :: "'a list option \<Rightarrow> 'a list" where
  "repeated f = (case f of None \<Rightarrow> [] | Some xs \<Rightarrow> xs)"

subsection \<open>The collaborators\<close>

datatype TCred = TCred (Uid: nat) (Gid: nat)

text \<open>
  A call of a collaborator acts on the state \<open>'s\<close> of the daemon (the holders, the
  containers, the kernel): from the state before the call it gives how the call ends
  and the state after it.
\<close>

type_synonym ('a, 's) call = "'s \<Rightarrow> 'a outcome \<times> 's"

text \<open>
  The container holder and its containers (\<^verbatim>\<open>container.hpp\<close> is not among the
  sources); \<open>'c\<close> is a container. \<^verbatim>\<open>GetProperty\<close> and \<^verbatim>\<open>GetData\<close> also give the string
  left in the caller's variable.
\<close>

record ('c, 's) TContainerHolder =
  holder_Get :: "string \<Rightarrow> ('c option, 's) call"
  holder_Create :: "string \<Rightarrow> TCred \<Rightarrow> (TError, 's) call"
  holder_Destroy :: "string \<Rightarrow> (TError, 's) call"
  holder_List :: "(string list, 's) call"
  container_CheckPermission :: "'c \<Rightarrow> TCred \<Rightarrow> (TError, 's) call"
  container_Start :: "'c \<Rightarrow> (TError, 's) call"
  container_Stop :: "'c \<Rightarrow> (TError, 's) call"
  container_Pause :: "'c \<Rightarrow> (TError, 's) call"
  container_Resume :: "'c \<Rightarrow> (TError, 's) call"
  container_Kill :: "'c \<Rightarrow> 32 word \<Rightarrow> (TError, 's) call"
  container_GetProperty :: "'c \<Rightarrow> string \<Rightarrow> (TError \<times> string, 's) call"
  container_SetProperty :: "'c \<Rightarrow> string \<Rightarrow> string \<Rightarrow> bool \<Rightarrow> (TError, 's) call"
  container_GetData :: "'c \<Rightarrow> string \<Rightarrow> (TError \<times> string, 's) call"

text \<open>
  The volume holder and its volumes, \<open>'v\<close> a volume; \<open>volume_make\<close> is
  \<^verbatim>\<open>std::make_shared<TVolume>\<close> with the storage and the holder of the context. The
  four getters of a volume only read it.
\<close>

record ('v, 's) TVolumeHolder =
  vholder_Get :: "string \<Rightarrow> ('v option, 's) call"
  vholder_List :: "(string list, 's) call"
  volume_make :: "string \<Rightarrow> string \<Rightarrow> string \<Rightarrow> string \<Rightarrow> TCred \<Rightarrow> ('v, 's) call"
  volume_Create :: "'v \<Rightarrow> (TError, 's) call"
  volume_CheckPermission :: "'v \<Rightarrow> TCred \<Rightarrow> (TError, 's) call"
  volume_Destroy :: "'v \<Rightarrow> (TError, 's) call"
  volume_GetName :: "'v \<Rightarrow> string"
  volume_GetSource :: "'v \<Rightarrow> string"
  volume_GetQuota :: "'v \<Rightarrow> string"
  volume_GetFlags :: "'v \<Rightarrow> string"

record ('c, 'v, 's) TContext =
  Cholder :: "('c, 's) TContainerHolder"
  Vholder :: "('v, 's) TVolumeHolder"

text \<open>
  A registry of value descriptors, \<^verbatim>\<open>TValueSet\<close> (\<^verbatim>\<open>value.hpp\<close> is not among the
  sources): the names \<^verbatim>\<open>GetNames()\<close> returns, in its order, and the pointer
  \<^verbatim>\<open>Get(name)\<close> returns, of which the code reads \<^verbatim>\<open>Flags\<close> and \<^verbatim>\<open>Desc\<close>.
\<close>

datatype TValue = TValue (Flags: "32 word") (Desc: string)

record TValueSet =
  GetNames :: "string list"
  ValueSet_Get :: "string \<Rightarrow> TValue option"

text \<open>
  What the dispatcher reads from outside the context: the two registries, the constant
  \<^verbatim>\<open>HIDDEN_VALUE\<close>, the version strings, and \<^verbatim>\<open>cred.IsPrivileged()\<close>.
\<close>

record globals =
  propertySet :: TValueSet
  dataSet :: TValueSet
  HIDDEN_VALUE :: "32 word"
  GIT_TAG :: string
  GIT_REVISION :: string
  IsPrivileged :: "TCred \<Rightarrow> bool"

subsection \<open>The handlers\<close>

text \<open>
  A handler gives how it ends, the response as it has written it so far, and the state
  of the daemon it leaves.
\<close>

type_synonym 's handled = "(TError outcome \<times> TContainerResponse) \<times> 's"

text \<open>\<^verbatim>\<open>return error;\<close> with the response \<open>rsp\<close>.\<close>

definition returns :: "TError \<Rightarrow> TContainerResponse \<Rightarrow> 's \<Rightarrow> 's handled" where
  "returns error rsp s = ((Returned error, rsp), s)"

text \<open>
  A call within a handler, and what the handler does with its result. A call that
  throws or dereferences null ends the handler there, with the response as it is at
  that point and the state the call has left.
\<close>

definition after ::
  "('a, 's) call \<Rightarrow> TContainerResponse \<Rightarrow> ('a \<Rightarrow> 's \<Rightarrow> 's handled) \<Rightarrow> 's \<Rightarrow> 's handled" where
  "after call rsp f s =
     (case call s of
        (ended, s1) \<Rightarrow>
          (case ended of
             Returned x \<Rightarrow> f x s1
           | Thrown e \<Rightarrow> ((Thrown e, rsp), s1)
           | NullDeref \<Rightarrow> ((NullDeref, rsp), s1)))"

text \<open>\<^verbatim>\<open>p->\<close>, for a shared pointer \<open>p\<close> that may be null; it changes nothing.\<close>

definition deref :: "'a option \<Rightarrow> ('a, 's) call" where
  "deref p s = (case p of None \<Rightarrow> (NullDeref, s) | Some x \<Rightarrow> (Returned x, s))"

definition CreateContainer ::
  "('c, 'v, 's) TContext \<Rightarrow> TContainerCreateRequest \<Rightarrow> TContainerResponse \<Rightarrow> TCred \<Rightarrow>
   's \<Rightarrow> 's handled" where
  "CreateContainer ctx req rsp cred =
     after (holder_Get (Cholder ctx) (req_name req)) rsp (\<lambda>container.
       if container \<noteq> None then
         returns (TError ContainerAlreadyExists ''invalid name'') rsp
       else
         after (holder_Create (Cholder ctx) (req_name req) cred) rsp (\<lambda>error.
           returns error rsp))"

definition DestroyContainer ::
  "('c, 'v, 's) TContext \<Rightarrow> TContainerDestroyRequest \<Rightarrow> TContainerResponse \<Rightarrow> TCred \<Rightarrow>
   's \<Rightarrow> 's handled" where
  "DestroyContainer ctx req rsp cred =
     after (holder_Get (Cholder ctx) (req_name req)) rsp (\<lambda>container.
       case container of
         Some c \<Rightarrow>
           after (container_CheckPermission (Cholder ctx) c cred) rsp (\<lambda>error.
             if is_error error then returns error rsp
             else
               after (holder_Destroy (Cholder ctx) (req_name req)) rsp (\<lambda>error.
                 returns error rsp))
       | None \<Rightarrow>
           after (holder_Destroy (Cholder ctx) (req_name req)) rsp (\<lambda>error.
             returns error rsp))"

text \<open>
  \<^verbatim>\<open>StartContainer\<close>, \<^verbatim>\<open>StopContainer\<close>, \<^verbatim>\<open>PauseContainer\<close>, \<^verbatim>\<open>ResumeContainer\<close> and
  \<^verbatim>\<open>Kill\<close> look the container up, check the permission and call the operation.
\<close>

definition StartContainer ::
  "('c, 'v, 's) TContext \<Rightarrow> TContainerStartRequest \<Rightarrow> TContainerResponse \<Rightarrow> TCred \<Rightarrow>
   's \<Rightarrow> 's handled" where
  "StartContainer ctx req rsp cred =
     after (holder_Get (Cholder ctx) (req_name req)) rsp (\<lambda>container.
       case container of
         None \<Rightarrow> returns (TError ContainerDoesNotExist ''invalid name'') rsp
       | Some c \<Rightarrow>
           after (container_CheckPermission (Cholder ctx) c cred) rsp (\<lambda>error.
             if is_error error then returns error rsp
             else
               after (container_Start (Cholder ctx) c) rsp (\<lambda>error. returns error rsp)))"

definition StopContainer ::
  "('c, 'v, 's) TContext \<Rightarrow> TContainerStopRequest \<Rightarrow> TContainerResponse \<Rightarrow> TCred \<Rightarrow>
   's \<Rightarrow> 's handled" where
  "StopContainer ctx req rsp cred =
     after (holder_Get (Cholder ctx) (req_name req)) rsp (\<lambda>container.
       case container of
         None \<Rightarrow> returns (TError ContainerDoesNotExist ''invalid name'') rsp
       | Some c \<Rightarrow>
           after (container_CheckPermission (Cholder ctx) c cred) rsp (\<lambda>error.
             if is_error error then returns error rsp
             else
               after (container_Stop (Cholder ctx) c) rsp (\<lambda>error. returns error rsp)))"

definition PauseContainer ::
  "('c, 'v, 's) TContext \<Rightarrow> TContainerPauseRequest \<Rightarrow> TContainerResponse \<Rightarrow> TCred \<Rightarrow>
   's \<Rightarrow> 's handled" where
  "PauseContainer ctx req rsp cred =
     after (holder_Get (Cholder ctx) (req_name req)) rsp (\<lambda>container.
       case container of
         None \<Rightarrow> returns (TError ContainerDoesNotExist ''invalid name'') rsp
       | Some c \<Rightarrow>
           after (container_CheckPermission (Cholder ctx) c cred) rsp (\<lambda>error.
             if is_error error then returns error rsp
             else
               after (container_Pause (Cholder ctx) c) rsp (\<lambda>error. returns error rsp)))"

definition ResumeContainer ::
  "('c, 'v, 's) TContext \<Rightarrow> TContainerResumeRequest \<Rightarrow> TContainerResponse \<Rightarrow> TCred \<Rightarrow>
   's \<Rightarrow> 's handled" where
  "ResumeContainer ctx req rsp cred =
     after (holder_Get (Cholder ctx) (req_name req)) rsp (\<lambda>container.
       case container of
         None \<Rightarrow> returns (TError ContainerDoesNotExist ''invalid name'') rsp
       | Some c \<Rightarrow>
           after (container_CheckPermission (Cholder ctx) c cred) rsp (\<lambda>error.
             if is_error error then returns error rsp
             else
               after (container_Resume (Cholder ctx) c) rsp (\<lambda>error. returns error rsp)))"

text \<open>\<^verbatim>\<open>rsp.mutable_list()->add_name(name)\<close>.\<close>

definition add_name :: "TContainerResponse \<Rightarrow> string \<Rightarrow> TContainerResponse" where
  "add_name rsp name = rsp\<lparr>rsp_list := Some (repeated (rsp_list rsp) @ [name])\<rparr>"

definition ListContainers ::
  "('c, 'v, 's) TContext \<Rightarrow> TContainerResponse \<Rightarrow> 's \<Rightarrow> 's handled" where
  "ListContainers ctx rsp =
     after (holder_List (Cholder ctx)) rsp (\<lambda>names.
       returns TError_Success (foldl add_name rsp names))"

definition GetContainerProperty ::
  "('c, 'v, 's) TContext \<Rightarrow> TContainerGetPropertyRequest \<Rightarrow> TContainerResponse \<Rightarrow> TCred \<Rightarrow>
   's \<Rightarrow> 's handled" where
  "GetContainerProperty ctx req rsp cred =
     after (holder_Get (Cholder ctx) (getproperty_name req)) rsp (\<lambda>container.
       case container of
         None \<Rightarrow> returns (TError ContainerDoesNotExist ''invalid name'') rsp
       | Some c \<Rightarrow>
           after (container_GetProperty (Cholder ctx) c (getproperty_property req)) rsp
             (\<lambda>(error, v).
                if \<not> is_error error then returns error (rsp\<lparr>rsp_getproperty := Some v\<rparr>)
                else returns error rsp))"

definition SetContainerProperty ::
  "globals \<Rightarrow> ('c, 'v, 's) TContext \<Rightarrow> TContainerSetPropertyRequest \<Rightarrow> TContainerResponse \<Rightarrow>
   TCred \<Rightarrow> 's \<Rightarrow> 's handled" where
  "SetContainerProperty g ctx req rsp cred =
     after (holder_Get (Cholder ctx) (setproperty_name req)) rsp (\<lambda>container.
       case container of
         None \<Rightarrow> returns (TError ContainerDoesNotExist ''invalid name'') rsp
       | Some c \<Rightarrow>
           after (container_CheckPermission (Cholder ctx) c cred) rsp (\<lambda>error.
             if is_error error then returns error rsp
             else
               after (container_SetProperty (Cholder ctx) c (setproperty_property req)
                        (setproperty_value req) (IsPrivileged g cred)) rsp (\<lambda>error.
                 returns error rsp)))"

definition GetContainerData ::
  "('c, 'v, 's) TContext \<Rightarrow> TContainerGetDataRequest \<Rightarrow> TContainerResponse \<Rightarrow> TCred \<Rightarrow>
   's \<Rightarrow> 's handled" where
  "GetContainerData ctx req rsp cred =
     after (holder_Get (Cholder ctx) (getdata_name req)) rsp (\<lambda>container.
       case container of
         None \<Rightarrow> returns (TError ContainerDoesNotExist ''invalid name'') rsp
       | Some c \<Rightarrow>
           after (container_GetData (Cholder ctx) c (getdata_data req)) rsp
             (\<lambda>(error, v).
                if \<not> is_error error then returns error (rsp\<lparr>rsp_getdata := Some v\<rparr>)
                else returns error rsp))"

text \<open>
  \<^verbatim>\<open>ListProperty\<close>: \<^verbatim>\<open>mutable_propertylist()\<close> sets the field, then the loop over the
  names adds an entry for each descriptor whose flags do not meet \<^verbatim>\<open>HIDDEN_VALUE\<close>.
  \<^verbatim>\<open>p->Flags\<close> dereferences what \<^verbatim>\<open>Get\<close> returned.
\<close>

definition hidden :: "32 word \<Rightarrow> TValue \<Rightarrow> bool" where
  "hidden hv p = (Flags p AND hv \<noteq> 0)"

fun ListProperty_loop ::
  "32 word \<Rightarrow> TValueSet \<Rightarrow> string list \<Rightarrow> TContainerResponse \<Rightarrow> 's \<Rightarrow> 's handled" where
  "ListProperty_loop hv vs [] rsp s = returns TError_Success rsp s"
| "ListProperty_loop hv vs (property # names) rsp s =
     after (deref (ValueSet_Get vs property)) rsp (\<lambda>p.
       if hidden hv p then ListProperty_loop hv vs names rsp
       else ListProperty_loop hv vs names
              (rsp\<lparr>rsp_propertylist :=
                 Some (repeated (rsp_propertylist rsp) @ [TListEntry property (Desc p)])\<rparr>)) s"

definition ListProperty :: "globals \<Rightarrow> TContainerResponse \<Rightarrow> 's \<Rightarrow> 's handled" where
  "ListProperty g rsp =
     ListProperty_loop (HIDDEN_VALUE g) (propertySet g) (GetNames (propertySet g))
       (rsp\<lparr>rsp_propertylist := Some (repeated (rsp_propertylist rsp))\<rparr>)"

fun ListData_loop ::
  "32 word \<Rightarrow> TValueSet \<Rightarrow> string list \<Rightarrow> TContainerResponse \<Rightarrow> 's \<Rightarrow> 's handled" where
  "ListData_loop hv vs [] rsp s = returns TError_Success rsp s"
| "ListData_loop hv vs (data # names) rsp s =
     after (deref (ValueSet_Get vs data)) rsp (\<lambda>d.
       if hidden hv d then ListData_loop hv vs names rsp
       else ListData_loop hv vs names
              (rsp\<lparr>rsp_datalist :=
                 Some (repeated (rsp_datalist rsp) @ [TListEntry data (Desc d)])\<rparr>)) s"

definition ListData :: "globals \<Rightarrow> TContainerResponse \<Rightarrow> 's \<Rightarrow> 's handled" where
  "ListData g rsp =
     ListData_loop (HIDDEN_VALUE g) (dataSet g) (GetNames (dataSet g))
       (rsp\<lparr>rsp_datalist := Some (repeated (rsp_datalist rsp))\<rparr>)"

definition Kill ::
  "('c, 'v, 's) TContext \<Rightarrow> TContainerKillRequest \<Rightarrow> TContainerResponse \<Rightarrow> TCred \<Rightarrow>
   's \<Rightarrow> 's handled" where
  "Kill ctx req rsp cred =
     after (holder_Get (Cholder ctx) (kill_name req)) rsp (\<lambda>container.
       case container of
         None \<Rightarrow> returns (TError ContainerDoesNotExist ''invalid name'') rsp
       | Some c \<Rightarrow>
           after (container_CheckPermission (Cholder ctx) c cred) rsp (\<lambda>error.
             if is_error error then returns error rsp
             else
               after (container_Kill (Cholder ctx) c (kill_sig req)) rsp (\<lambda>error.
                 returns error rsp)))"

definition Version :: "globals \<Rightarrow> TContainerResponse \<Rightarrow> 's \<Rightarrow> 's handled" where
  "Version g rsp =
     returns TError_Success
       (rsp\<lparr>rsp_version := Some (TVersion (GIT_TAG g) (GIT_REVISION g))\<rparr>)"

definition CreateVolume ::
  "('c, 'v, 's) TContext \<Rightarrow> TVolumeCreateRequest \<Rightarrow> TContainerResponse \<Rightarrow> TCred \<Rightarrow>
   's \<Rightarrow> 's handled" where
  "CreateVolume ctx req rsp cred =
     after (volume_make (Vholder ctx) (createvolume_name req) (createvolume_source req)
              (createvolume_quota req) (createvolume_flags req) cred) rsp (\<lambda>volume.
       after (volume_Create (Vholder ctx) volume) rsp (\<lambda>err.
         if is_error err then returns err rsp
         else returns TError_Success rsp))"

text \<open>
  \<^verbatim>\<open>DestroyVolume\<close>. After the \<^verbatim>\<open>if (volume)\<close> block the pointer is null, and the
  message of the error is built from \<^verbatim>\<open>volume->GetName()\<close>.
\<close>

definition DestroyVolume ::
  "('c, 'v, 's) TContext \<Rightarrow> TVolumeDestroyRequest \<Rightarrow> TContainerResponse \<Rightarrow> TCred \<Rightarrow>
   's \<Rightarrow> 's handled" where
  "DestroyVolume ctx req rsp cred =
     after (vholder_Get (Vholder ctx) (req_name req)) rsp (\<lambda>volume.
       if volume \<noteq> None then
         after (deref volume) rsp (\<lambda>v.
           after (volume_CheckPermission (Vholder ctx) v cred) rsp (\<lambda>error.
             if is_error error then returns error rsp
             else
               after (volume_Destroy (Vholder ctx) v) rsp (\<lambda>error. returns error rsp)))
       else
         after (deref volume) rsp (\<lambda>v.
           returns (TError VolumeDoesNotExist
                      (''volume '' @ volume_GetName (Vholder ctx) v @ ''doesn't exist'')) rsp))"

text \<open>
  The loop of \<^verbatim>\<open>ListVolumes\<close>: the description is added to the response first, then
  the volume is looked up and its fields are copied through the pointer.
\<close>

fun ListVolumes_loop ::
  "('c, 'v, 's) TContext \<Rightarrow> string list \<Rightarrow> TContainerResponse \<Rightarrow> 's \<Rightarrow> 's handled" where
  "ListVolumes_loop ctx [] rsp s = returns TError_Success rsp s"
| "ListVolumes_loop ctx (name # names) rsp s =
     (let rsp1 = rsp\<lparr>rsp_volumelist :=
                   Some (repeated (rsp_volumelist rsp) @ [TVolumeDescription [] [] [] []])\<rparr>
      in after (vholder_Get (Vholder ctx) name) rsp1 (\<lambda>found.
           after (deref found) rsp1 (\<lambda>vol.
             ListVolumes_loop ctx names
               (rsp\<lparr>rsp_volumelist :=
                  Some (repeated (rsp_volumelist rsp) @
                    [TVolumeDescription (volume_GetName (Vholder ctx) vol)
                       (volume_GetSource (Vholder ctx) vol) (volume_GetQuota (Vholder ctx) vol)
                       (volume_GetFlags (Vholder ctx) vol)])\<rparr>))) s)"

definition ListVolumes ::
  "('c, 'v, 's) TContext \<Rightarrow> TContainerResponse \<Rightarrow> 's \<Rightarrow> 's handled" where
  "ListVolumes ctx rsp =
     after (vholder_List (Vholder ctx)) rsp (\<lambda>names. ListVolumes_loop ctx names rsp)"

subsection \<open>The dispatcher\<close>

text \<open>
  \<^verbatim>\<open>if (!error) send_reply = false\<close>, reached when the volume handler has returned.
\<close>

definition reply_after_volume :: "'s handled \<Rightarrow> bool" where
  "reply_after_volume h =
     (case fst (fst h) of
        Returned error \<Rightarrow> is_error error
      | Thrown e \<Rightarrow> True
      | NullDeref \<Rightarrow> True)"

text \<open>
  One step of the chain of \<^verbatim>\<open>if (req.has_...())\<close>: when the field is set, the branch
  runs on its content, and otherwise the rest of the chain does.
\<close>

fun on_variant :: "'a option \<Rightarrow> ('a \<Rightarrow> 'b) \<Rightarrow> 'b \<Rightarrow> 'b" where
  "on_variant (Some r) branch rest = branch r"
| "on_variant None branch rest = rest"

text \<open>
  The \<^verbatim>\<open>try\<close> block of \<^verbatim>\<open>HandleRpcRequest\<close>: the chain, in its order. It gives how
  the block ends, the response, the state of the daemon, and \<^verbatim>\<open>send_reply\<close>.
\<close>

definition HandleRpcRequest_try ::
  "globals \<Rightarrow> ('c, 'v, 's) TContext \<Rightarrow> TContainerRequest \<Rightarrow> TContainerResponse \<Rightarrow> TCred \<Rightarrow>
   's \<Rightarrow> 's handled \<times> bool" where
  "HandleRpcRequest_try g ctx req rsp cred s =
     on_variant (req_create req) (\<lambda>r. (CreateContainer ctx r rsp cred s, True))
    (on_variant (req_destroy req) (\<lambda>r. (DestroyContainer ctx r rsp cred s, True))
    (on_variant (req_list req) (\<lambda>r. (ListContainers ctx rsp s, True))
    (on_variant (req_getproperty req) (\<lambda>r. (GetContainerProperty ctx r rsp cred s, True))
    (on_variant (req_setproperty req) (\<lambda>r. (SetContainerProperty g ctx r rsp cred s, True))
    (on_variant (req_getdata req) (\<lambda>r. (GetContainerData ctx r rsp cred s, True))
    (on_variant (req_start req) (\<lambda>r. (StartContainer ctx r rsp cred s, True))
    (on_variant (req_stop req) (\<lambda>r. (StopContainer ctx r rsp cred s, True))
    (on_variant (req_pause req) (\<lambda>r. (PauseContainer ctx r rsp cred s, True))
    (on_variant (req_resume req) (\<lambda>r. (ResumeContainer ctx r rsp cred s, True))
    (on_variant (req_propertylist req) (\<lambda>r. (ListProperty g rsp s, True))
    (on_variant (req_datalist req) (\<lambda>r. (ListData g rsp s, True))
    (on_variant (req_kill req) (\<lambda>r. (Kill ctx r rsp cred s, True))
    (on_variant (req_version req) (\<lambda>r. (Version g rsp s, True))
    (on_variant (req_createvolume req)
       (\<lambda>r. let h = CreateVolume ctx r rsp cred s in (h, reply_after_volume h))
    (on_variant (req_destroyvolume req)
       (\<lambda>r. let h = DestroyVolume ctx r rsp cred s in (h, reply_after_volume h))
    (on_variant (req_listvolumes req) (\<lambda>r. (ListVolumes ctx rsp s, True))
       (returns (TError InvalidMethod ''invalid RPC method'') rsp s, True)))))))))))))))))"

text \<open>The error each \<^verbatim>\<open>catch\<close> clause builds.\<close>

fun caught :: "fault \<Rightarrow> TError" where
  "caught bad_alloc = TError Unknown ''memory allocation failure''"
| "caught (thrown_string exc) = TError Unknown exc"
| "caught (std_exception what) = TError Unknown what"
| "caught other_fault = TError Unknown ''unknown error''"

text \<open>The lines given to \<^verbatim>\<open>TLogger::LogRequest\<close> and \<^verbatim>\<open>TLogger::LogResponse\<close>.\<close>

datatype log_line = LogRequest TContainerRequest | LogResponse TContainerResponse

record dispatched =
  send_reply :: bool
  response :: TContainerResponse
  log_lines :: "log_line list"

text \<open>
  What follows the \<^verbatim>\<open>try\<close> block: the error and its message are written into the
  response, and the response is logged when it is to be sent.
\<close>

definition finish :: "TContainerRequest \<Rightarrow> TError \<Rightarrow> TContainerResponse \<Rightarrow> bool \<Rightarrow> dispatched" where
  "finish req error rsp send =
     (let rsp' = rsp\<lparr>rsp_error := Some (GetError error), rsp_errormsg := Some (GetMsg error)\<rparr>
      in \<lparr> send_reply = send, response = rsp',
           log_lines = LogRequest req # (if send then [LogResponse rsp'] else []) \<rparr>)"

text \<open>
  The \<^verbatim>\<open>catch\<close> clauses and the rest of the function, applied to how the \<^verbatim>\<open>try\<close>
  block ended: the result of the function and the state of the daemon it leaves. A
  null dereference is not an exception: no clause takes it, and the function has no
  result.
\<close>

definition HandleRpcRequest_catch ::
  "TContainerRequest \<Rightarrow> 's handled \<times> bool \<Rightarrow> (dispatched \<times> 's) option" where
  "HandleRpcRequest_catch req t =
     (case t of (((ended, rsp), s), send) \<Rightarrow>
        (case ended of
           Returned error \<Rightarrow> Some (finish req error rsp send, s)
         | Thrown e \<Rightarrow> Some (finish req (caught e) Clear send, s)
         | NullDeref \<Rightarrow> None))"

definition HandleRpcRequest ::
  "globals \<Rightarrow> ('c, 'v, 's) TContext \<Rightarrow> TContainerRequest \<Rightarrow> TContainerResponse \<Rightarrow> TCred \<Rightarrow>
   's \<Rightarrow> (dispatched \<times> 's) option" where
  "HandleRpcRequest g ctx req rsp cred s =
     HandleRpcRequest_catch req
       (HandleRpcRequest_try g ctx req (rsp\<lparr>rsp_error := Some Unknown\<rparr>) cred s)"

subsection \<open>The variants of a request\<close>

text \<open>
  The variants, \<open>variants\<close> listing them in the order in which the chain of
  \<^verbatim>\<open>HandleRpcRequest\<close> tests them; \<open>set_variants req\<close> are those set in a request, in the
  same order.
\<close>

datatype variant =
    v_create | v_destroy | v_list | v_getproperty | v_setproperty | v_getdata | v_start
  | v_stop | v_pause | v_resume | v_propertylist | v_datalist | v_kill | v_version
  | v_createvolume | v_destroyvolume | v_listvolumes

fun has_variant :: "TContainerRequest \<Rightarrow> variant \<Rightarrow> bool" where
  "has_variant req v_create = (req_create req \<noteq> None)"
| "has_variant req v_destroy = (req_destroy req \<noteq> None)"
| "has_variant req v_list = (req_list req \<noteq> None)"
| "has_variant req v_getproperty = (req_getproperty req \<noteq> None)"
| "has_variant req v_setproperty = (req_setproperty req \<noteq> None)"
| "has_variant req v_getdata = (req_getdata req \<noteq> None)"
| "has_variant req v_start = (req_start req \<noteq> None)"
| "has_variant req v_stop = (req_stop req \<noteq> None)"
| "has_variant req v_pause = (req_pause req \<noteq> None)"
| "has_variant req v_resume = (req_resume req \<noteq> None)"
| "has_variant req v_propertylist = (req_propertylist req \<noteq> None)"
| "has_variant req v_datalist = (req_datalist req \<noteq> None)"
| "has_variant req v_kill = (req_kill req \<noteq> None)"
| "has_variant req v_version = (req_version req \<noteq> None)"
| "has_variant req v_createvolume = (req_createvolume req \<noteq> None)"
| "has_variant req v_destroyvolume = (req_destroyvolume req \<noteq> None)"
| "has_variant req v_listvolumes = (req_listvolumes req \<noteq> None)"

definition variants :: "variant list" where
  "variants = [v_create, v_destroy, v_list, v_getproperty, v_setproperty, v_getdata, v_start,
     v_stop, v_pause, v_resume, v_propertylist, v_datalist, v_kill, v_version,
     v_createvolume, v_destroyvolume, v_listvolumes]"

definition set_variants :: "TContainerRequest \<Rightarrow> variant list" where
  "set_variants req = filter (has_variant req) variants"

text \<open>The end of the chain: no handler is called.\<close>

definition invalid_method :: "TContainerResponse \<Rightarrow> 's \<Rightarrow> 's handled \<times> bool" where
  "invalid_method rsp s = (returns (TError InvalidMethod ''invalid RPC method'') rsp s, True)"

text \<open>
  The handler that matches a variant, called on the content of that variant alone, with
  \<^verbatim>\<open>send_reply\<close> as the branch of that variant leaves it.
\<close>

fun handler_of ::
  "variant \<Rightarrow> globals \<Rightarrow> ('c, 'v, 's) TContext \<Rightarrow> TContainerRequest \<Rightarrow> TContainerResponse \<Rightarrow>
   TCred \<Rightarrow> 's \<Rightarrow> 's handled \<times> bool" where
  "handler_of v_create g ctx req rsp cred s =
     on_variant (req_create req) (\<lambda>r. (CreateContainer ctx r rsp cred s, True)) (invalid_method rsp s)"
| "handler_of v_destroy g ctx req rsp cred s =
     on_variant (req_destroy req) (\<lambda>r. (DestroyContainer ctx r rsp cred s, True)) (invalid_method rsp s)"
| "handler_of v_list g ctx req rsp cred s =
     on_variant (req_list req) (\<lambda>r. (ListContainers ctx rsp s, True)) (invalid_method rsp s)"
| "handler_of v_getproperty g ctx req rsp cred s =
     on_variant (req_getproperty req) (\<lambda>r. (GetContainerProperty ctx r rsp cred s, True))
       (invalid_method rsp s)"
| "handler_of v_setproperty g ctx req rsp cred s =
     on_variant (req_setproperty req) (\<lambda>r. (SetContainerProperty g ctx r rsp cred s, True))
       (invalid_method rsp s)"
| "handler_of v_getdata g ctx req rsp cred s =
     on_variant (req_getdata req) (\<lambda>r. (GetContainerData ctx r rsp cred s, True))
       (invalid_method rsp s)"
| "handler_of v_start g ctx req rsp cred s =
     on_variant (req_start req) (\<lambda>r. (StartContainer ctx r rsp cred s, True)) (invalid_method rsp s)"
| "handler_of v_stop g ctx req rsp cred s =
     on_variant (req_stop req) (\<lambda>r. (StopContainer ctx r rsp cred s, True)) (invalid_method rsp s)"
| "handler_of v_pause g ctx req rsp cred s =
     on_variant (req_pause req) (\<lambda>r. (PauseContainer ctx r rsp cred s, True)) (invalid_method rsp s)"
| "handler_of v_resume g ctx req rsp cred s =
     on_variant (req_resume req) (\<lambda>r. (ResumeContainer ctx r rsp cred s, True)) (invalid_method rsp s)"
| "handler_of v_propertylist g ctx req rsp cred s =
     on_variant (req_propertylist req) (\<lambda>r. (ListProperty g rsp s, True)) (invalid_method rsp s)"
| "handler_of v_datalist g ctx req rsp cred s =
     on_variant (req_datalist req) (\<lambda>r. (ListData g rsp s, True)) (invalid_method rsp s)"
| "handler_of v_kill g ctx req rsp cred s =
     on_variant (req_kill req) (\<lambda>r. (Kill ctx r rsp cred s, True)) (invalid_method rsp s)"
| "handler_of v_version g ctx req rsp cred s =
     on_variant (req_version req) (\<lambda>r. (Version g rsp s, True)) (invalid_method rsp s)"
| "handler_of v_createvolume g ctx req rsp cred s =
     on_variant (req_createvolume req)
       (\<lambda>r. let h = CreateVolume ctx r rsp cred s in (h, reply_after_volume h)) (invalid_method rsp s)"
| "handler_of v_destroyvolume g ctx req rsp cred s =
     on_variant (req_destroyvolume req)
       (\<lambda>r. let h = DestroyVolume ctx r rsp cred s in (h, reply_after_volume h)) (invalid_method rsp s)"
| "handler_of v_listvolumes g ctx req rsp cred s =
     on_variant (req_listvolumes req) (\<lambda>r. (ListVolumes ctx rsp s, True)) (invalid_method rsp s)"

text \<open>A handler has succeeded when it has returned an error of kind \<^verbatim>\<open>Success\<close>.\<close>

definition succeeded :: "TError outcome \<Rightarrow> bool" where
  "succeeded ended =
     (case ended of Returned error \<Rightarrow> \<not> is_error error | Thrown e \<Rightarrow> False | NullDeref \<Rightarrow> False)"

text \<open>
  The entries a listing is to hold: one for each name of the registry, in the order of
  \<^verbatim>\<open>GetNames()\<close>, whose descriptor is not hidden, with the name and the description.
\<close>

definition entry_of :: "32 word \<Rightarrow> TValueSet \<Rightarrow> string \<Rightarrow> TListEntry option" where
  "entry_of hv vs name =
     (case ValueSet_Get vs name of
        None \<Rightarrow> None
      | Some d \<Rightarrow> if hidden hv d then None else Some (TListEntry name (Desc d)))"

definition visible_entries :: "32 word \<Rightarrow> TValueSet \<Rightarrow> TListEntry list" where
  "visible_entries hv vs = List.map_filter (entry_of hv vs) (GetNames vs)"

text \<open>Every name the registry enumerates has a descriptor.\<close>

definition resolves :: "TValueSet \<Rightarrow> bool" where
  "resolves vs = list_all (\<lambda>name. ValueSet_Get vs name \<noteq> None) (GetNames vs)"

subsection \<open>A daemon to run the dispatcher on\<close>

text \<open>
  A daemon whose state is the names of its containers and of its volumes, a container
  and a volume being its name. Creating adds the name and destroying removes it; every
  operation succeeds; the property \<^verbatim>\<open>command\<close> and the data \<^verbatim>\<open>state\<close> can be read, and
  reading anything else fails without touching the caller's string.
\<close>

record daemon =
  containers :: "string list"
  volumes :: "string list"

definition demo_Cholder :: "(string, daemon) TContainerHolder" where
  "demo_Cholder = \<lparr>
     holder_Get = (\<lambda>name s.
        (Returned (if name \<in> set (containers s) then Some name else None), s)),
     holder_Create = (\<lambda>name cred s.
        (Returned TError_Success, s\<lparr>containers := containers s @ [name]\<rparr>)),
     holder_Destroy = (\<lambda>name s.
        (Returned TError_Success, s\<lparr>containers := removeAll name (containers s)\<rparr>)),
     holder_List = (\<lambda>s. (Returned (containers s), s)),
     container_CheckPermission = (\<lambda>c cred s. (Returned TError_Success, s)),
     container_Start = (\<lambda>c s. (Returned TError_Success, s)),
     container_Stop = (\<lambda>c s. (Returned TError_Success, s)),
     container_Pause = (\<lambda>c s. (Returned TError_Success, s)),
     container_Resume = (\<lambda>c s. (Returned TError_Success, s)),
     container_Kill = (\<lambda>c sig s. (Returned TError_Success, s)),
     container_GetProperty = (\<lambda>c property s.
        (Returned (if property = ''command'' then (TError_Success, ''sleep 1'')
                   else (TError InvalidValue ''invalid property'', [])), s)),
     container_SetProperty = (\<lambda>c property v privileged s. (Returned TError_Success, s)),
     container_GetData = (\<lambda>c data s.
        (Returned (if data = ''state'' then (TError_Success, ''stopped'')
                   else (TError InvalidValue ''invalid data'', [])), s)) \<rparr>"

definition demo_Vholder :: "(string, daemon) TVolumeHolder" where
  "demo_Vholder = \<lparr>
     vholder_Get = (\<lambda>name s.
        (Returned (if name \<in> set (volumes s) then Some name else None), s)),
     vholder_List = (\<lambda>s. (Returned (volumes s), s)),
     volume_make = (\<lambda>name source quota flags cred s. (Returned name, s)),
     volume_Create = (\<lambda>v s. (Returned TError_Success, s\<lparr>volumes := volumes s @ [v]\<rparr>)),
     volume_CheckPermission = (\<lambda>v cred s. (Returned TError_Success, s)),
     volume_Destroy = (\<lambda>v s.
        (Returned TError_Success, s\<lparr>volumes := removeAll v (volumes s)\<rparr>)),
     volume_GetName = (\<lambda>v. v),
     volume_GetSource = (\<lambda>v. ''/place/'' @ v),
     volume_GetQuota = (\<lambda>v. ''1G''),
     volume_GetFlags = (\<lambda>v. []) \<rparr>"

definition demo_context :: "(string, string, daemon) TContext" where
  "demo_context = \<lparr> Cholder = demo_Cholder, Vholder = demo_Vholder \<rparr>"

text \<open>The daemon with the containers \<^verbatim>\<open>a\<close> and \<^verbatim>\<open>a/b\<close> and the volume \<^verbatim>\<open>v1\<close>.\<close>

definition demo_daemon :: daemon where
  "demo_daemon = \<lparr> containers = [''a'', ''a/b''], volumes = [''v1''] \<rparr>"

text \<open>
  Registries of three properties and two data, one of each hidden, with the hidden
  flag at bit 30.
\<close>

definition demo_propertySet :: TValueSet where
  "demo_propertySet = \<lparr>
     GetNames = [''command'', ''raw_root_pid'', ''user''],
     ValueSet_Get = (\<lambda>name.
        if name = ''command'' then Some (TValue 0 ''Command executed upon container start'')
        else if name = ''raw_root_pid'' then Some (TValue 0x40000001 ''Root pid'')
        else if name = ''user'' then Some (TValue 2 ''Start command with given user'')
        else None) \<rparr>"

definition demo_dataSet :: TValueSet where
  "demo_dataSet = \<lparr>
     GetNames = [''state'', ''oom_killed''],
     ValueSet_Get = (\<lambda>name.
        if name = ''state'' then Some (TValue 0 ''container state'')
        else if name = ''oom_killed'' then Some (TValue 0x40000000 ''killed by OOM'')
        else None) \<rparr>"

definition demo_globals :: globals where
  "demo_globals = \<lparr> propertySet = demo_propertySet, dataSet = demo_dataSet,
     HIDDEN_VALUE = 0x40000000, GIT_TAG = ''v0.23'', GIT_REVISION = ''8b1a9c5'',
     IsPrivileged = (\<lambda>cred. Uid cred = 0) \<rparr>"

text \<open>
  A volume holder that lists \<^verbatim>\<open>v1\<close> and \<^verbatim>\<open>v2\<close> and throws when \<^verbatim>\<open>v2\<close> is looked
  up.
\<close>

definition throwing_context :: "(string, string, daemon) TContext" where
  "throwing_context = \<lparr> Cholder = demo_Cholder,
     Vholder = demo_Vholder\<lparr>
       vholder_List := (\<lambda>s. (Returned [''v1'', ''v2''], s)),
       vholder_Get := (\<lambda>name s.
          (if name = ''v1'' then Returned (Some name)
           else Thrown (std_exception ''volume map corrupted''), s))\<rparr> \<rparr>"

text \<open>The response a caller passes in: nothing is set.\<close>

definition fresh_response :: TContainerResponse where
  "fresh_response = Clear"

text \<open>The request with no variant set.\<close>

definition no_request :: TContainerRequest where
  "no_request = \<lparr> req_create = None, req_destroy = None, req_list = None,
     req_getproperty = None, req_setproperty = None, req_getdata = None, req_start = None,
     req_stop = None, req_pause = None, req_resume = None, req_propertylist = None,
     req_datalist = None, req_kill = None, req_version = None, req_createvolume = None,
     req_destroyvolume = None, req_listvolumes = None \<rparr>"

definition root_cred :: TCred where
  "root_cred = TCred 0 0"

text \<open>The requests used below.\<close>

definition two_variants :: TContainerRequest where
  "two_variants = no_request\<lparr> req_create := Some (TContainerNameRequest ''c''),
     req_destroy := Some (TContainerNameRequest ''a'') \<rparr>"

definition list_volumes :: TContainerRequest where
  "list_volumes = no_request\<lparr> req_listvolumes := Some () \<rparr>"

definition destroy_absent_volume :: TContainerRequest where
  "destroy_absent_volume = no_request\<lparr> req_destroyvolume := Some (TContainerNameRequest ''v9'') \<rparr>"

definition list_properties :: TContainerRequest where
  "list_properties = no_request\<lparr> req_propertylist := Some () \<rparr>"

definition get_unknown_property :: TContainerRequest where
  "get_unknown_property =
     no_request\<lparr> req_getproperty := Some (TContainerGetPropertyRequest ''a'' ''nope'') \<rparr>"

definition get_unknown_data :: TContainerRequest where
  "get_unknown_data =
     no_request\<lparr> req_getdata := Some (TContainerGetDataRequest ''a'' ''nope'') \<rparr>"

definition get_property_of_absent :: TContainerRequest where
  "get_property_of_absent =
     no_request\<lparr> req_getproperty := Some (TContainerGetPropertyRequest ''zz'' ''command'') \<rparr>"

definition get_data_of_absent :: TContainerRequest where
  "get_data_of_absent =
     no_request\<lparr> req_getdata := Some (TContainerGetDataRequest ''zz'' ''state'') \<rparr>"

section \<open>Typed property accessors (property.hpp)\<close>

text \<open>The flag constants of \<^verbatim>\<open>property.hpp\<close>.\<close>

definition SUPERUSER_PROPERTY :: "32 word" where
  "SUPERUSER_PROPERTY = push_bit 0 1"

definition PARENT_DEF_PROPERTY :: "32 word" where
  "PARENT_DEF_PROPERTY = push_bit 1 1"

definition PARENT_RO_PROPERTY :: "32 word" where
  "PARENT_RO_PROPERTY = push_bit 2 1"

text \<open>
  A property holder as the accessors see it. \<^verbatim>\<open>TVariantSet\<close>, \<^verbatim>\<open>ParentDefault\<close> and
  \<^verbatim>\<open>TContainer\<close> are not among the sources, so the holder carries what they answer:
  \<^verbatim>\<open>VariantSet.IsDefault(property)\<close>; \<^verbatim>\<open>ParentDefault(c, property)\<close>; the holder that
  \<^verbatim>\<open>c->GetParent()->Prop\<close> reaches, if no pointer on the way is null; and for each
  type \<^verbatim>\<open>VariantSet.Get...(property, value)\<close>, from the property and the value the
  caller's variable holds to the error and the value it holds afterwards. An
  \<^verbatim>\<open>int\<close> is a 32-bit word read as two's complement, a \<^verbatim>\<open>uint64_t\<close> a 64-bit word.
\<close>

datatype TPropertyHolder = TPropertyHolder
  (IsDefault: "string \<Rightarrow> bool")
  (ParentDefault: "string \<Rightarrow> bool")
  (ParentProp: "TPropertyHolder option")
  (VariantSet_GetString: "string \<Rightarrow> string \<Rightarrow> TError \<times> string")
  (VariantSet_GetBool: "string \<Rightarrow> bool \<Rightarrow> TError \<times> bool")
  (VariantSet_GetInt: "string \<Rightarrow> 32 word \<Rightarrow> TError \<times> 32 word")
  (VariantSet_GetUint: "string \<Rightarrow> 64 word \<Rightarrow> TError \<times> 64 word")

type_synonym error_log = "(TError \<times> string) list"

text \<open>
  The macro \<^verbatim>\<open>SYNTHESIZE_ACCESSOR(NAME, TYPE)\<close>: \<open>get\<close> is \<^verbatim>\<open>VariantSet.Get ## NAME\<close> and
  \<open>zero\<close> is \<^verbatim>\<open>TYPE value{}\<close>. The result is the value returned and the log with the
  lines given to \<^verbatim>\<open>TLogger::LogError\<close> added.
\<close>

fun SYNTHESIZE_ACCESSOR ::
  "(TPropertyHolder \<Rightarrow> string \<Rightarrow> 'a \<Rightarrow> TError \<times> 'a) \<Rightarrow> 'a \<Rightarrow> TPropertyHolder \<Rightarrow> string \<Rightarrow>
   error_log \<Rightarrow> ('a \<times> error_log) outcome" where
  "SYNTHESIZE_ACCESSOR get zero (TPropertyHolder isd pd pp gs gb gi gu) property lg =
     (if isd property \<and> pd property then
        (case pp of
           None \<Rightarrow> NullDeref
         | Some parent \<Rightarrow> SYNTHESIZE_ACCESSOR get zero parent property lg)
      else
        (case get (TPropertyHolder isd pd pp gs gb gi gu) property zero of
           (error, v) \<Rightarrow>
             Returned (v, if is_error error
                          then lg @ [(error, ''Can't get property '' @ property)]
                          else lg)))"

definition GetString :: "TPropertyHolder \<Rightarrow> string \<Rightarrow> error_log \<Rightarrow> (string \<times> error_log) outcome" where
  "GetString = SYNTHESIZE_ACCESSOR VariantSet_GetString []"

definition GetBool :: "TPropertyHolder \<Rightarrow> string \<Rightarrow> error_log \<Rightarrow> (bool \<times> error_log) outcome" where
  "GetBool = SYNTHESIZE_ACCESSOR VariantSet_GetBool False"

text \<open>
  Modelled from the spec: \<^verbatim>\<open>GetInt\<close> and \<^verbatim>\<open>GetUint\<close>, which \<^verbatim>\<open>property.hpp\<close> declares
  and whose bodies are not among the sources. The specification gives one typed read
  for the four types, and the comment beside the declarations calls them copies of the
  macro.
\<close>

definition GetInt :: "TPropertyHolder \<Rightarrow> string \<Rightarrow> error_log \<Rightarrow> (32 word \<times> error_log) outcome" where
  "GetInt = SYNTHESIZE_ACCESSOR VariantSet_GetInt 0"

definition GetUint :: "TPropertyHolder \<Rightarrow> string \<Rightarrow> error_log \<Rightarrow> (64 word \<times> error_log) outcome" where
  "GetUint = SYNTHESIZE_ACCESSOR VariantSet_GetUint 0"

text \<open>
  A typed read of the variant set that fails leaves the caller's variable as it was.
\<close>

definition keeps_on_error :: "(string \<Rightarrow> 'a \<Rightarrow> TError \<times> 'a) \<Rightarrow> bool" where
  "keeps_on_error get = (\<forall>property v. is_error (fst (get property v)) \<longrightarrow> snd (get property v) = v)"

text \<open>
  What the specification says of a typed accessor, \<open>get\<close> being the typed read of the
  variant set and \<open>zero\<close> the zero value of the type: when the slot is default and the
  descriptor is to take the parent's value, the accessor returns what the accessor of
  the parent's holder returns; otherwise, when the typed read fails, the error is
  logged and the zero value returned; otherwise the value read is returned and nothing
  is logged.
\<close>

definition typed_accessor ::
  "(TPropertyHolder \<Rightarrow> string \<Rightarrow> 'a \<Rightarrow> TError \<times> 'a) \<Rightarrow> 'a \<Rightarrow>
   (TPropertyHolder \<Rightarrow> string \<Rightarrow> error_log \<Rightarrow> ('a \<times> error_log) outcome) \<Rightarrow> bool" where
  "typed_accessor get zero accessor =
     (\<forall>h property lg.
        (IsDefault h property \<and> ParentDefault h property \<longrightarrow>
           accessor h property lg
             = (case ParentProp h of
                  None \<Rightarrow> NullDeref
                | Some parent \<Rightarrow> accessor parent property lg))
      \<and> (\<not> (IsDefault h property \<and> ParentDefault h property)
           \<and> is_error (fst (get h property zero)) \<and> keeps_on_error (get h) \<longrightarrow>
           accessor h property lg
             = Returned (zero,
                 lg @ [(fst (get h property zero), ''Can't get property '' @ property)]))
      \<and> (\<not> (IsDefault h property \<and> ParentDefault h property)
           \<and> \<not> is_error (fst (get h property zero)) \<longrightarrow>
           accessor h property lg = Returned (snd (get h property zero), lg)))"

subsection \<open>Holders to run the accessors on\<close>

text \<open>
  A holder made of its explicit slots, the static defaults and the flags of the
  descriptors, and its parent: a slot is default when it holds no string, the raw value
  is the stored string or the static default, and each typed read parses the raw
  value, leaving the caller's variable alone when the parse fails.
\<close>

definition parse_with :: "(string \<Rightarrow> TError + 'a) \<Rightarrow> string \<Rightarrow> 'a \<Rightarrow> TError \<times> 'a" where
  "parse_with parse raw v =
     (case parse raw of Inl error \<Rightarrow> (error, v) | Inr x \<Rightarrow> (TError_Success, x))"

definition parse_bool :: "string \<Rightarrow> TError + bool" where
  "parse_bool s =
     (if s = ''true'' then Inr True else if s = ''false'' then Inr False
      else Inl (TError InvalidValue (''invalid boolean value '' @ s)))"

definition parse_digit :: "string \<Rightarrow> TError + nat" where
  "parse_digit s =
     (if s = ''0'' then Inr 0 else if s = ''1'' then Inr 1 else if s = ''2'' then Inr 2
      else Inl (TError InvalidValue (''invalid integer value '' @ s)))"

definition demo_holder ::
  "(string \<Rightarrow> 32 word) \<Rightarrow> (string \<Rightarrow> string) \<Rightarrow> (string \<rightharpoonup> string) \<Rightarrow>
   TPropertyHolder option \<Rightarrow> TPropertyHolder" where
  "demo_holder flags static slots parent =
     (let raw = (\<lambda>property. case slots property of Some s \<Rightarrow> s | None \<Rightarrow> static property)
      in TPropertyHolder
           (\<lambda>property. slots property = None)
           (\<lambda>property. flags property AND PARENT_DEF_PROPERTY \<noteq> 0)
           parent
           (\<lambda>property. parse_with Inr (raw property))
           (\<lambda>property. parse_with parse_bool (raw property))
           (\<lambda>property. parse_with (map_sum id of_nat \<circ> parse_digit) (raw property))
           (\<lambda>property. parse_with (map_sum id of_nat \<circ> parse_digit) (raw property)))"

text \<open>
  The descriptors \<^verbatim>\<open>isolate\<close> (inherited from the parent) and \<^verbatim>\<open>respawn\<close>, and a
  container \<^verbatim>\<open>a/b\<close> with no slot set under a container \<^verbatim>\<open>a\<close> whose \<^verbatim>\<open>isolate\<close>
  is \<^verbatim>\<open>true\<close> and whose \<^verbatim>\<open>respawn\<close> does not parse.
\<close>

definition demo_flags :: "string \<Rightarrow> 32 word" where
  "demo_flags property = (if property = ''isolate'' then PARENT_DEF_PROPERTY else 0)"

definition demo_static :: "string \<Rightarrow> string" where
  "demo_static property = ''false''"

definition holder_a :: TPropertyHolder where
  "holder_a = demo_holder demo_flags demo_static
     [''isolate'' \<mapsto> ''true'', ''respawn'' \<mapsto> ''maybe''] None"

definition holder_ab :: TPropertyHolder where
  "holder_ab = demo_holder demo_flags demo_static Map.empty (Some holder_a)"

section \<open>Results about traffic control\<close>

text \<open>
  Claim C4, as amended. When the network-enabled flag is false, creating and removing a
  qdisc, a class and a filter return success and leave the kernel as it was, for every
  kernel and every behaviour of the netlink calls; as a read of the kernel is a call
  that returns a kernel state too, no call is made at all. Reading the statistics of a
  class makes no call either and leaves the caller's map as it was, but it returns the
  error \<^verbatim>\<open>Unknown\<close> with the message \<^verbatim>\<open>Network support is disabled\<close>.
\<close>

theorem tc_disabled_no_kernel_access:
  "TQdisc_Create nl False q k = (TError_Success, k)
   \<and> TQdisc_Remove nl False q k = (TError_Success, k)
   \<and> TTclass_Create nl False t prio rate ceil k = (TError_Success, k)
   \<and> TTclass_Remove nl False t k = (TError_Success, k)
   \<and> TFilter_Create nl False f k = (TError_Success, k)
   \<and> TFilter_Remove nl False f k = (TError_Success, k)
   \<and> TTclass_GetStat nl False t stat m k
        = ((TError Unknown ''Network support is disabled'', m), k)"
  by (simp add: TQdisc_Create_def TQdisc_Remove_def TTclass_Create_def TTclass_Remove_def
      TFilter_Create_def TFilter_Remove_def TTclass_GetStat_def)

text \<open>
  Claim C4 as stated fails: with the flag false, reading the statistics of a class does
  not return success.
\<close>

theorem tc_disabled_stat_counterexample:
  "GetError (fst (fst (TTclass_GetStat tc_netlink False tclass2 (0::nat) Map.empty
      kernel_eth1_only))) = Unknown
   \<and> fst (fst (TTclass_GetStat tc_netlink False tclass2 (0::nat) Map.empty kernel_eth1_only))
       \<noteq> TError_Success"
  by (simp add: TTclass_GetStat_def TError_Success_def)

text \<open>
  Claim C5, on the input where the code departs from it. The class is installed on
  \<^verbatim>\<open>eth1\<close> and not on \<^verbatim>\<open>eth0\<close>, and the links are \<^verbatim>\<open>eth0\<close>, \<^verbatim>\<open>eth1\<close>. With
  networking enabled \<^verbatim>\<open>Remove\<close> returns success after one call to the kernel, the
  existence check on \<^verbatim>\<open>eth0\<close>; it does not visit \<^verbatim>\<open>eth1\<close>, where the class still
  exists afterwards.
\<close>

theorem TTclass_Remove_stops_at_absent_link:
  "TTclass_Remove tc_netlink True tclass2 kernel_eth1_only
     = (TError_Success, \<lparr> classes = [(eth1, 0x10000, 0x10003)], calls = 1 \<rparr>)
   \<and> fst (TTclass_Exists tc_netlink True tclass2 eth1
        (snd (TTclass_Remove tc_netlink True tclass2 kernel_eth1_only)))"
  by (simp add: TTclass_Remove_def tclass2_def qdisc2_def TQdisc_GetLink_def
      TTclass_Exists_def TTclass_GetParent_def TQdisc_GetHandle_def tc_netlink_def
      kernel_eth1_only_def counted_def eth0_def eth1_def)

text \<open>
  On this kernel, where every netlink call succeeds, \<^verbatim>\<open>Remove\<close> returns success from
  every state, so a second \<^verbatim>\<open>Remove\<close> succeeds as the first does.
\<close>

lemma TTclass_Remove_loop_succeeds:
  "fst (TTclass_Remove_loop tc_netlink enabled t links k) = TError_Success"
  by (induction links arbitrary: k)
     (simp_all add: TTclass_Exists_def tc_netlink_def is_error_def TError_Success_def)

lemma TTclass_Remove_succeeds:
  "fst (TTclass_Remove tc_netlink enabled t k) = TError_Success"
  by (simp add: TTclass_Remove_def TTclass_Remove_loop_succeeds)

section \<open>Results about the subsystem registry\<close>

text \<open>A second call with the same name returns the same pointer and makes nothing.\<close>

lemma TSubsystem_Get_singleton:
  "TSubsystem_Get name r = (p, r1) \<Longrightarrow> TSubsystem_Get name r1 = (p, r1)"
  by (auto simp: TSubsystem_Get_def assign_new_def make_shared_def Let_def split: if_splits)

text \<open>A name other than the three the factory tests for gets the generic adapter.\<close>

lemma TSubsystem_Get_other:
  "name \<notin> {''memory'', ''freezer'', ''cpu''} \<Longrightarrow> subsystems r name = None \<Longrightarrow>
   pointee (TSubsystem_Get name r) = Some (TSubsystem name)"
  by (auto simp: TSubsystem_Get_def assign_new_def make_shared_def Let_def pointee_def
      object_at_def)

text \<open>
  Claim C3, on the input where the code departs from it. In a registry that holds no
  adapter yet, \<^verbatim>\<open>TSubsystem::Cpuacct()\<close> returns a pointer to a generic
  \<^verbatim>\<open>TSubsystem\<close> named \<^verbatim>\<open>cpuacct\<close>, not to a \<^verbatim>\<open>TCpuacctSubsystem\<close>, while the
  accessors for \<^verbatim>\<open>memory\<close>, \<^verbatim>\<open>freezer\<close> and \<^verbatim>\<open>cpu\<close> return pointers to objects of
  their own classes.
\<close>

theorem Cpuacct_is_generic:
  "pointee (TSubsystem_Cpuacct no_subsystems) = Some (TSubsystem ''cpuacct'')
   \<and> pointee (TSubsystem_Memory no_subsystems) = Some TMemorySubsystem
   \<and> pointee (TSubsystem_Freezer no_subsystems) = Some TFreezerSubsystem
   \<and> pointee (TSubsystem_Cpu no_subsystems) = Some TCpuSubsystem"
  by (simp add: TSubsystem_Cpuacct_def TSubsystem_Memory_def TSubsystem_Freezer_def
      TSubsystem_Cpu_def TSubsystem_Get_def assign_new_def make_shared_def Let_def
      pointee_def object_at_def no_subsystems_def)

section \<open>Results about the freezer\<close>

lemma WaitState_handler_kernel:
  "kernel (snd (WaitState_handler cg state w)) = snd (GetKnobValue cg ''freezer.state'' (kernel w))"
  by (simp add: WaitState_handler_def LogError_def Let_def split: prod.splits)

lemma WaitState_handler_ret:
  "fst (WaitState_handler cg state w)
     = (if snd (fst (GetKnobValue cg ''freezer.state'' (kernel w))) \<noteq> state then 1 else 0)"
  by (simp add: WaitState_handler_def Let_def split: prod.splits)

lemma poll_kernel_Suc:
  "poll_kernel cg pause (Suc n) k
     = poll_kernel cg pause n (pause 100 (snd (GetKnobValue cg ''freezer.state'' k)))"
  by (simp only: poll_kernel_def funpow_Suc_right o_apply)

lemma poll_reading_0:
  "poll_reading cg pause 0 k = snd (fst (GetKnobValue cg ''freezer.state'' k))"
  by (simp add: poll_reading_def poll_kernel_def)

lemma poll_reading_Suc:
  "poll_reading cg pause (Suc n) k
     = poll_reading cg pause n (pause 100 (snd (GetKnobValue cg ''freezer.state'' k)))"
  by (simp add: poll_reading_def poll_kernel_Suc)

lemma ex_less_Suc: "(\<exists>i<Suc n. P i) = (P 0 \<or> (\<exists>i<n. P (Suc i)))"
  by (metis less_Suc_eq_0_disj)

text \<open>
  The retry loop on the handler of \<^verbatim>\<open>WaitState\<close> ends with 0 exactly when one of its
  polls reads the awaited string.
\<close>

lemma RetryFailed_loop_polls:
  "ret \<noteq> 0 \<Longrightarrow>
   (fst (RetryFailed_loop n 100 (WaitState_handler cg state) (world_sleep pause) ret w) = 0)
     = (\<exists>i<n. poll_reading cg pause i (kernel w) = state)"
proof (induction n arbitrary: ret w)
  case 0
  then show ?case by simp
next
  case (Suc n)
  obtain r w1 where h: "WaitState_handler cg state w = (r, w1)"
    by (cases "WaitState_handler cg state w")
  have r: "r = (if poll_reading cg pause 0 (kernel w) \<noteq> state then 1 else 0)"
    using WaitState_handler_ret [of cg state w] h by (simp add: poll_reading_0)
  have k: "kernel (world_sleep pause 100 w1)
             = pause 100 (snd (GetKnobValue cg ''freezer.state'' (kernel w)))"
    using WaitState_handler_kernel [of cg state w] h by (simp add: world_sleep_def)
  show ?case
  proof (cases "r = 0")
    case True
    with h r show ?thesis
      by (auto simp: ex_less_Suc split: if_splits)
  next
    case False
    then have "(fst (RetryFailed_loop n 100 (WaitState_handler cg state) (world_sleep pause) r
                  (world_sleep pause 100 w1)) = 0)
                 = (\<exists>i<n. poll_reading cg pause i (kernel (world_sleep pause 100 w1)) = state)"
      by (rule Suc.IH)
    with False h r k show ?thesis
      by (auto simp: ex_less_Suc poll_reading_Suc split: if_splits)
  qed
qed

lemma WaitState_RetryFailed:
  "fst (WaitState (RetryFailed (world_sleep pause)) timeout_s cg state w)
     = (if \<exists>i<nat (timeout_s * 10). poll_reading cg pause i (kernel w) = state
        then TError_Success
        else TError Unknown (''Can't wait for freezer state '' @ state))"
proof -
  have "(fst (RetryFailed (world_sleep pause) (timeout_s * 10) 100 (WaitState_handler cg state) w) = 0)
          = (\<exists>i<nat (timeout_s * 10). poll_reading cg pause i (kernel w) = state)"
    unfolding RetryFailed_def by (rule RetryFailed_loop_polls) simp
  then show ?thesis
    by (auto simp: WaitState_def Let_def split: prod.splits)
qed

text \<open>
  Whatever \<^verbatim>\<open>RetryFailed\<close> does, \<^verbatim>\<open>WaitState\<close> calls it with ten tries for each second
  of the timeout, an interval of 100 milliseconds and the handler above, and turns a
  result other than 0 into an error of kind \<^verbatim>\<open>Unknown\<close>.
\<close>

lemma WaitState_any_retry:
  "fst (WaitState retry timeout_s cg state w)
     = (if fst (retry (timeout_s * 10) 100 (WaitState_handler cg state) w) \<noteq> 0
        then TError Unknown (''Can't wait for freezer state '' @ state)
        else TError_Success)"
  by (simp add: WaitState_def Let_def split: prod.splits)

text \<open>
  Claim C2, as amended. \<^verbatim>\<open>WaitState\<close> gives \<^verbatim>\<open>RetryFailed\<close> ten tries for each second of
  the timeout and an interval of 100 milliseconds, and when \<^verbatim>\<open>RetryFailed\<close> returns
  another number than 0 its error is of kind \<^verbatim>\<open>Unknown\<close>, with the message
  \<^verbatim>\<open>Can't wait for freezer state\<close> and the awaited string; this holds whatever
  \<^verbatim>\<open>RetryFailed\<close> does. With \<^verbatim>\<open>RetryFailed\<close> the bounded retry of the specification,
  \<^verbatim>\<open>Freeze\<close> first writes \<^verbatim>\<open>FROZEN\<close> to \<^verbatim>\<open>freezer.state\<close> and returns the error of the
  write if it fails; otherwise it polls \<^verbatim>\<open>freezer.state\<close> up to
  \<^verbatim>\<open>FREEZER_WAIT_TIMEOUT_S * 10\<close> times, 100 milliseconds apart, and returns success if
  one of these polls reads \<^verbatim>\<open>FROZEN\<close> followed by a newline, and else that error of
  kind \<^verbatim>\<open>Unknown\<close>. \<^verbatim>\<open>Unfreeze\<close> does the same with \<^verbatim>\<open>THAWED\<close>.
\<close>

theorem freezer_wait_result:
  "fst (WaitState retry timeout_s cg state w)
     = (if fst (retry (timeout_s * 10) 100 (WaitState_handler cg state) w) \<noteq> 0
        then TError Unknown (''Can't wait for freezer state '' @ state)
        else TError_Success)
   \<and> fst (Freeze (RetryFailed (world_sleep pause)) timeout_s cg w)
       = (case SetKnobValue cg ''freezer.state'' ''FROZEN'' (kernel w) of
            (error, k1) \<Rightarrow>
              if is_error error then error
              else if \<exists>i<nat (timeout_s * 10). poll_reading cg pause i k1 = FROZEN_line
              then TError_Success
              else TError Unknown (''Can't wait for freezer state '' @ FROZEN_line))
   \<and> fst (Unfreeze (RetryFailed (world_sleep pause)) timeout_s cg w)
       = (case SetKnobValue cg ''freezer.state'' ''THAWED'' (kernel w) of
            (error, k1) \<Rightarrow>
              if is_error error then error
              else if \<exists>i<nat (timeout_s * 10). poll_reading cg pause i k1 = THAWED_line
              then TError_Success
              else TError Unknown (''Can't wait for freezer state '' @ THAWED_line))"
  using WaitState_any_retry [of retry timeout_s cg state w]
  by (simp add: Freeze_def Unfreeze_def WaitState_RetryFailed split: prod.splits)

lemma stuck_reading: "poll_reading stuck_cgroup clock_pause i k = ''FREEZING'' @ [CHR 0x0A]"
  by (simp add: poll_reading_def stuck_cgroup_def)

lemma stuck_write: "SetKnobValue stuck_cgroup knob v k = (TError_Success, k)"
  by (simp add: stuck_cgroup_def)

text \<open>
  Claim C2 as stated fails: on a cgroup that never reads \<^verbatim>\<open>FROZEN\<close>, with a timeout
  of 60 seconds, \<^verbatim>\<open>Freeze\<close> fails with the kind \<^verbatim>\<open>Unknown\<close>, not \<^verbatim>\<open>FreezerTimeout\<close>.
\<close>

theorem freezer_timeout_counterexample:
  "GetError (fst (Freeze (RetryFailed (world_sleep clock_pause)) 60 stuck_cgroup
      \<lparr> kernel = 0, logged = [] \<rparr>)) = Unknown
   \<and> GetError (fst (Freeze (RetryFailed (world_sleep clock_pause)) 60 stuck_cgroup
      \<lparr> kernel = 0, logged = [] \<rparr>)) \<noteq> FreezerTimeout"
  by (simp add: Freeze_def WaitState_RetryFailed stuck_reading stuck_write FROZEN_line_def
      is_error_def TError_Success_def)

text \<open>
  A cgroup that is frozen 250 milliseconds after the write: the fourth poll, at 300
  milliseconds, reads \<^verbatim>\<open>FROZEN\<close>, and \<^verbatim>\<open>Freeze\<close> succeeds there with nothing logged.
\<close>

lemma Freeze_slow_cgroup:
  "Freeze (RetryFailed (world_sleep clock_pause)) 60 slow_cgroup \<lparr> kernel = 7, logged = [] \<rparr>
     = (TError_Success, \<lparr> kernel = 300, logged = [] \<rparr>)"
  by (simp add: Freeze_def WaitState_def RetryFailed_def slow_cgroup_def world_sleep_def
      clock_pause_def WaitState_handler_def is_error_def TError_Success_def FROZEN_line_def
      Let_def eval_nat_numeral)

section \<open>Results about the dispatcher\<close>

lemma on_variant_if: "on_variant x branch rest = (if x \<noteq> None then branch (the x) else rest)"
  by (cases x) simp_all

text \<open>
  The chain calls the handler of the first variant that is set, in the order of the
  chain, and no handler when none is set.
\<close>

lemma try_first:
  "HandleRpcRequest_try g ctx req rsp cred s
     = (case set_variants req of
          [] \<Rightarrow> invalid_method rsp s
        | v # vs \<Rightarrow> handler_of v g ctx req rsp cred s)"
  by (simp add: HandleRpcRequest_try_def set_variants_def variants_def on_variant_if
      invalid_method_def)

lemma set_variants_head:
  assumes "set_variants req = v # vs"
  shows "has_variant req v"
proof -
  have "v \<in> set (filter (has_variant req) variants)"
    using assms by (simp add: set_variants_def)
  then show ?thesis by simp
qed

text \<open>
  Claim C1, as amended. When no variant of the request is set, \<^verbatim>\<open>HandleRpcRequest\<close>
  calls no handler, leaves the daemon as it was and returns the response with the error
  \<^verbatim>\<open>InvalidMethod\<close> and the message \<^verbatim>\<open>invalid RPC method\<close>, to be sent. When one
  variant or more are set, it calls exactly one handler, that of the first variant set
  in the order of the chain (create, destroy, list, getproperty, setproperty, getdata,
  start, stop, pause, resume, propertylist, datalist, kill, version, createvolume,
  destroyvolume, listvolumes), and the result is made from how that one handler ends;
  the other variants set are ignored.
\<close>

theorem dispatch_first_set_variant:
  "(set_variants req = [] \<longrightarrow>
      HandleRpcRequest g ctx req rsp cred s
        = Some (\<lparr> send_reply = True,
                  response = rsp\<lparr>rsp_error := Some InvalidMethod,
                                 rsp_errormsg := Some ''invalid RPC method''\<rparr>,
                  log_lines = [LogRequest req,
                    LogResponse (rsp\<lparr>rsp_error := Some InvalidMethod,
                                      rsp_errormsg := Some ''invalid RPC method''\<rparr>)] \<rparr>, s))
   \<and> (\<forall>v vs. set_variants req = v # vs \<longrightarrow>
      HandleRpcRequest g ctx req rsp cred s
        = HandleRpcRequest_catch req
            (handler_of v g ctx req (rsp\<lparr>rsp_error := Some Unknown\<rparr>) cred s))"
  by (simp add: HandleRpcRequest_def try_first invalid_method_def returns_def
      HandleRpcRequest_catch_def finish_def Let_def)

lemma set_variants_two: "set_variants two_variants = [v_create, v_destroy]"
  by (simp add: set_variants_def variants_def two_variants_def no_request_def)

lemma set_variants_none: "set_variants no_request = []"
  by (simp add: set_variants_def variants_def no_request_def)

text \<open>The three ways a call within a handler ends.\<close>

lemma after_Returned: "call s = (Returned x, s1) \<Longrightarrow> after call rsp f s = f x s1"
  by (simp add: after_def)

lemma after_Thrown: "call s = (Thrown e, s1) \<Longrightarrow> after call rsp f s = ((Thrown e, rsp), s1)"
  by (simp add: after_def)

lemma after_NullDeref: "call s = (NullDeref, s1) \<Longrightarrow> after call rsp f s = ((NullDeref, rsp), s1)"
  by (simp add: after_def)

text \<open>
  Claim C1 as stated fails: a request with the two variants create and destroy set is
  answered with the result of the create handler, here \<^verbatim>\<open>Success\<close>, not with
  \<^verbatim>\<open>InvalidMethod\<close>; the container \<^verbatim>\<open>c\<close> has been created and \<^verbatim>\<open>a\<close> is still there.
\<close>

theorem two_variants_counterexample:
  "set_variants two_variants = [v_create, v_destroy]
   \<and> map_option (\<lambda>d. rsp_error (response (fst d)))
        (HandleRpcRequest demo_globals demo_context two_variants fresh_response root_cred
           demo_daemon)
       = Some (Some Success)
   \<and> map_option snd
        (HandleRpcRequest demo_globals demo_context two_variants fresh_response root_cred
           demo_daemon)
       = Some \<lparr> containers = [''a'', ''a/b'', ''c''], volumes = [''v1''] \<rparr>"
  using set_variants_two
  by (simp add: HandleRpcRequest_def HandleRpcRequest_try_def
      HandleRpcRequest_catch_def finish_def CreateContainer_def two_variants_def
      after_def returns_def demo_context_def demo_Cholder_def demo_daemon_def
      TError_Success_def Let_def no_request_def)

text \<open>
  The theorem of claim C1 on the request with no variant and on the request with two.
\<close>

theorem dispatch_first_set_variant_witness:
  "set_variants no_request = []
   \<and> map_option (\<lambda>d. rsp_error (response (fst d)))
        (HandleRpcRequest demo_globals demo_context no_request fresh_response root_cred
           demo_daemon)
       = Some (Some InvalidMethod)
   \<and> set_variants two_variants = v_create # [v_destroy]
   \<and> HandleRpcRequest demo_globals demo_context two_variants fresh_response root_cred
        demo_daemon
       = HandleRpcRequest_catch two_variants
           (handler_of v_create demo_globals demo_context two_variants
              (fresh_response\<lparr>rsp_error := Some Unknown\<rparr>) root_cred demo_daemon)"
  using dispatch_first_set_variant [of no_request demo_globals demo_context fresh_response
      root_cred demo_daemon]
    dispatch_first_set_variant [of two_variants demo_globals demo_context fresh_response
      root_cred demo_daemon]
  by (simp add: set_variants_two set_variants_none)

text \<open>When the \<^verbatim>\<open>try\<close> block ends with a throw, \<^verbatim>\<open>send_reply\<close> is still true.\<close>

lemma try_thrown_sends:
  assumes "fst (fst (fst (HandleRpcRequest_try g ctx req rsp cred s))) = Thrown e"
  shows "snd (HandleRpcRequest_try g ctx req rsp cred s)"
proof (cases "set_variants req")
  case Nil
  with assms show ?thesis by (simp add: try_first invalid_method_def)
next
  case (Cons v vs)
  with assms have "fst (fst (fst (handler_of v g ctx req rsp cred s))) = Thrown e"
    by (simp add: try_first)
  then have "snd (handler_of v g ctx req rsp cred s)"
    by (cases v)
       (simp_all add: on_variant_if invalid_method_def reply_after_volume_def Let_def
          split: if_splits)
  with Cons show ?thesis by (simp add: try_first)
qed

text \<open>
  Claim C7. Whenever the \<^verbatim>\<open>try\<close> block of \<^verbatim>\<open>HandleRpcRequest\<close> ends with a fault
  thrown in a handler, whatever the handler had written into the response by then,
  \<^verbatim>\<open>HandleRpcRequest\<close> returns: the response it leaves has no payload field set, its
  error is \<^verbatim>\<open>Unknown\<close>, and its message is \<^verbatim>\<open>memory allocation failure\<close> for a
  \<^verbatim>\<open>std::bad_alloc\<close>, the string itself for a thrown string, \<^verbatim>\<open>what()\<close> for another
  \<^verbatim>\<open>std::exception\<close>, and \<^verbatim>\<open>unknown error\<close> for anything else; the response is logged
  and is to be sent. The daemon is left in the state it had when the fault was thrown.
\<close>

theorem fault_becomes_Unknown:
  assumes "fst (fst (fst (HandleRpcRequest_try g ctx req (rsp\<lparr>rsp_error := Some Unknown\<rparr>)
             cred s))) = Thrown e"
  shows "\<exists>d. HandleRpcRequest g ctx req rsp cred s
               = Some (d, snd (fst (HandleRpcRequest_try g ctx req
                                      (rsp\<lparr>rsp_error := Some Unknown\<rparr>) cred s)))
           \<and> send_reply d
           \<and> response d =
               \<lparr> rsp_error = Some Unknown,
                 rsp_errormsg = Some (case e of
                     bad_alloc \<Rightarrow> ''memory allocation failure''
                   | thrown_string exc \<Rightarrow> exc
                   | std_exception what \<Rightarrow> what
                   | other_fault \<Rightarrow> ''unknown error''),
                 rsp_list = None, rsp_getproperty = None, rsp_getdata = None,
                 rsp_propertylist = None, rsp_datalist = None, rsp_version = None,
                 rsp_volumelist = None \<rparr>
           \<and> log_lines d = [LogRequest req, LogResponse (response d)]"
proof -
  obtain ended rsp1 s1 send
    where t: "HandleRpcRequest_try g ctx req (rsp\<lparr>rsp_error := Some Unknown\<rparr>) cred s
                = (((ended, rsp1), s1), send)"
    by (metis surj_pair)
  with assms have ended: "ended = Thrown e" by simp
  from try_thrown_sends [OF assms] t have send: "send" by simp
  show ?thesis
    by (cases e)
       (simp_all add: HandleRpcRequest_def t ended send HandleRpcRequest_catch_def finish_def
          Clear_def Let_def)
qed

text \<open>
  The theorem of claim C7 on a listing of the volumes in which the second lookup
  throws: the \<^verbatim>\<open>try\<close> block ends with one description filled and one empty, and the
  response returned holds neither.
\<close>

theorem fault_becomes_Unknown_witness:
  "HandleRpcRequest_try demo_globals throwing_context list_volumes
       (fresh_response\<lparr>rsp_error := Some Unknown\<rparr>) root_cred demo_daemon
     = (((Thrown (std_exception ''volume map corrupted''),
          fresh_response\<lparr>rsp_error := Some Unknown,
            rsp_volumelist := Some [TVolumeDescription ''v1'' ''/place/v1'' ''1G'' [],
                                    TVolumeDescription [] [] [] []]\<rparr>), demo_daemon), True)
   \<and> (\<exists>d. HandleRpcRequest demo_globals throwing_context list_volumes fresh_response root_cred
             demo_daemon
             = Some (d, demo_daemon)
           \<and> send_reply d
           \<and> response d =
               \<lparr> rsp_error = Some Unknown, rsp_errormsg = Some ''volume map corrupted'',
                 rsp_list = None, rsp_getproperty = None, rsp_getdata = None,
                 rsp_propertylist = None, rsp_datalist = None, rsp_version = None,
                 rsp_volumelist = None \<rparr>
           \<and> log_lines d = [LogRequest list_volumes, LogResponse (response d)])"
proof -
  have t: "HandleRpcRequest_try demo_globals throwing_context list_volumes
             (fresh_response\<lparr>rsp_error := Some Unknown\<rparr>) root_cred demo_daemon
           = (((Thrown (std_exception ''volume map corrupted''),
                fresh_response\<lparr>rsp_error := Some Unknown,
                  rsp_volumelist := Some [TVolumeDescription ''v1'' ''/place/v1'' ''1G'' [],
                                          TVolumeDescription [] [] [] []]\<rparr>), demo_daemon), True)"
    by (simp add: HandleRpcRequest_try_def list_volumes_def no_request_def ListVolumes_def
        throwing_context_def demo_Vholder_def after_def deref_def repeated_def
        fresh_response_def Clear_def Let_def)
  from fault_becomes_Unknown [of demo_globals throwing_context list_volumes fresh_response
      root_cred demo_daemon "std_exception ''volume map corrupted''"] t
  show ?thesis by simp
qed


text \<open>
  The two listing loops add the visible entries of the names they run over, in order,
  to the entries the response holds already, and leave the daemon as it was.
\<close>

lemma ListProperty_loop_resolved:
  "list_all (\<lambda>name. ValueSet_Get vs name \<noteq> None) names \<Longrightarrow> rsp_propertylist rsp = Some l \<Longrightarrow>
   ListProperty_loop hv vs names rsp s
     = ((Returned TError_Success,
         rsp\<lparr>rsp_propertylist := Some (l @ List.map_filter (entry_of hv vs) names)\<rparr>), s)"
proof (induction names arbitrary: rsp l)
  case Nil
  then show ?case by (simp add: List.map_filter_simps returns_def)
next
  case (Cons name names)
  then obtain d where d: "ValueSet_Get vs name = Some d" by auto
  from Cons.prems have rest: "list_all (\<lambda>name. ValueSet_Get vs name \<noteq> None) names" by simp
  show ?case
  proof (cases "hidden hv d")
    case True
    with d Cons.IH [OF rest Cons.prems(2)] show ?thesis
      by (simp add: after_def deref_def List.map_filter_simps entry_of_def)
  next
    case False
    have "rsp_propertylist (rsp\<lparr>rsp_propertylist := Some (l @ [TListEntry name (Desc d)])\<rparr>)
            = Some (l @ [TListEntry name (Desc d)])" by simp
    from Cons.IH [OF rest this] False d Cons.prems(2) show ?thesis
      by (simp add: after_def deref_def List.map_filter_simps entry_of_def repeated_def)
  qed
qed

lemma ListData_loop_resolved:
  "list_all (\<lambda>name. ValueSet_Get vs name \<noteq> None) names \<Longrightarrow> rsp_datalist rsp = Some l \<Longrightarrow>
   ListData_loop hv vs names rsp s
     = ((Returned TError_Success,
         rsp\<lparr>rsp_datalist := Some (l @ List.map_filter (entry_of hv vs) names)\<rparr>), s)"
proof (induction names arbitrary: rsp l)
  case Nil
  then show ?case by (simp add: List.map_filter_simps returns_def)
next
  case (Cons name names)
  then obtain d where d: "ValueSet_Get vs name = Some d" by auto
  from Cons.prems have rest: "list_all (\<lambda>name. ValueSet_Get vs name \<noteq> None) names" by simp
  show ?case
  proof (cases "hidden hv d")
    case True
    with d Cons.IH [OF rest Cons.prems(2)] show ?thesis
      by (simp add: after_def deref_def List.map_filter_simps entry_of_def)
  next
    case False
    have "rsp_datalist (rsp\<lparr>rsp_datalist := Some (l @ [TListEntry name (Desc d)])\<rparr>)
            = Some (l @ [TListEntry name (Desc d)])" by simp
    from Cons.IH [OF rest this] False d Cons.prems(2) show ?thesis
      by (simp add: after_def deref_def List.map_filter_simps entry_of_def repeated_def)
  qed
qed

lemma ListProperty_resolved:
  "resolves (propertySet g) \<Longrightarrow>
   ListProperty g rsp s
     = ((Returned TError_Success,
         rsp\<lparr>rsp_propertylist :=
           Some (repeated (rsp_propertylist rsp)
                 @ visible_entries (HIDDEN_VALUE g) (propertySet g))\<rparr>), s)"
  by (simp add: ListProperty_def resolves_def ListProperty_loop_resolved visible_entries_def)

lemma ListData_resolved:
  "resolves (dataSet g) \<Longrightarrow>
   ListData g rsp s
     = ((Returned TError_Success,
         rsp\<lparr>rsp_datalist :=
           Some (repeated (rsp_datalist rsp)
                 @ visible_entries (HIDDEN_VALUE g) (dataSet g))\<rparr>), s)"
  by (simp add: ListData_def resolves_def ListData_loop_resolved visible_entries_def)

lemma visible_names:
  "map entry_name (List.map_filter (entry_of hv vs) names)
     = filter (\<lambda>name. \<exists>d. ValueSet_Get vs name = Some d \<and> \<not> hidden hv d) names"
  by (induction names) (auto simp: List.map_filter_simps entry_of_def split: option.splits)

lemma visible_descs:
  "e \<in> set (List.map_filter (entry_of hv vs) names) \<Longrightarrow>
   \<exists>d. ValueSet_Get vs (entry_name e) = Some d \<and> \<not> hidden hv d \<and> entry_desc e = Desc d"
  by (induction names) (auto simp: List.map_filter_simps entry_of_def split: option.splits if_splits)

text \<open>
  Claim C8. In a registry where every enumerated name has a descriptor, \<^verbatim>\<open>ListProperty\<close>
  and \<^verbatim>\<open>ListData\<close> succeed and add to the \<^verbatim>\<open>propertylist\<close> (\<^verbatim>\<open>datalist\<close>) of the response
  the visible entries of the property (data) registry. The names of the visible
  entries of a registry are the names the registry enumerates whose descriptor does not
  carry the hidden flag, in the order of the enumeration, so a hidden descriptor is
  omitted and every other one appears; and each entry holds the description of the
  descriptor of its name. The response of \<^verbatim>\<open>HandleRpcRequest\<close> to a request whose first
  variant set is propertylist (datalist) holds that list, with the error \<^verbatim>\<open>Success\<close>.
\<close>

theorem listings_omit_hidden:
  "(resolves (propertySet g) \<longrightarrow>
      ListProperty g rsp s
        = ((Returned TError_Success,
            rsp\<lparr>rsp_propertylist :=
              Some (repeated (rsp_propertylist rsp)
                    @ visible_entries (HIDDEN_VALUE g) (propertySet g))\<rparr>), s))
   \<and> (resolves (dataSet g) \<longrightarrow>
      ListData g rsp s
        = ((Returned TError_Success,
            rsp\<lparr>rsp_datalist :=
              Some (repeated (rsp_datalist rsp)
                    @ visible_entries (HIDDEN_VALUE g) (dataSet g))\<rparr>), s))
   \<and> map entry_name (visible_entries hv vs)
       = filter (\<lambda>name. \<exists>d. ValueSet_Get vs name = Some d \<and> \<not> hidden hv d) (GetNames vs)
   \<and> (\<forall>e \<in> set (visible_entries hv vs).
         \<exists>d. ValueSet_Get vs (entry_name e) = Some d \<and> \<not> hidden hv d \<and> entry_desc e = Desc d)
   \<and> (\<forall>vars. set_variants req = v_propertylist # vars \<longrightarrow> resolves (propertySet g) \<longrightarrow>
         (\<exists>d. HandleRpcRequest g ctx req rsp cred s = Some (d, s)
             \<and> rsp_error (response d) = Some Success
             \<and> rsp_propertylist (response d)
                 = Some (repeated (rsp_propertylist rsp)
                         @ visible_entries (HIDDEN_VALUE g) (propertySet g))))
   \<and> (\<forall>vars. set_variants req = v_datalist # vars \<longrightarrow> resolves (dataSet g) \<longrightarrow>
         (\<exists>d. HandleRpcRequest g ctx req rsp cred s = Some (d, s)
             \<and> rsp_error (response d) = Some Success
             \<and> rsp_datalist (response d)
                 = Some (repeated (rsp_datalist rsp)
                         @ visible_entries (HIDDEN_VALUE g) (dataSet g))))"
proof -
  have p: "\<And>vars. set_variants req = v_propertylist # vars \<Longrightarrow> req_propertylist req \<noteq> None"
    using set_variants_head [of req v_propertylist] by simp
  have d: "\<And>vars. set_variants req = v_datalist # vars \<Longrightarrow> req_datalist req \<noteq> None"
    using set_variants_head [of req v_datalist] by simp
  show ?thesis
    using visible_descs [of _ hv vs "GetNames vs"]
    by (auto simp: ListProperty_resolved ListData_resolved visible_entries_def visible_names
        HandleRpcRequest_def try_first HandleRpcRequest_catch_def finish_def Let_def
        TError_Success_def dest!: p d)
qed

lemma hidden_demo:
  "hidden 0x40000000 (TValue 0 x) = False" "hidden 0x40000000 (TValue 2 x) = False"
  "hidden 0x40000000 (TValue 0x40000001 x) = True" "hidden 0x40000000 (TValue 0x40000000 x) = True"
  by (simp_all add: hidden_def)

text \<open>
  The theorem of claim C8 on registries with one hidden descriptor each.
\<close>

theorem listings_omit_hidden_witness:
  "resolves (propertySet demo_globals) \<and> resolves (dataSet demo_globals)
   \<and> ListProperty demo_globals fresh_response demo_daemon
       = ((Returned TError_Success,
           fresh_response\<lparr>rsp_propertylist :=
             Some [TListEntry ''command'' ''Command executed upon container start'',
                   TListEntry ''user'' ''Start command with given user'']\<rparr>), demo_daemon)
   \<and> ListData demo_globals fresh_response demo_daemon
       = ((Returned TError_Success,
           fresh_response\<lparr>rsp_datalist := Some [TListEntry ''state'' ''container state'']\<rparr>),
          demo_daemon)
   \<and> map entry_name (visible_entries 0x40000000 demo_propertySet) = [''command'', ''user'']
   \<and> set_variants list_properties = [v_propertylist]
   \<and> (\<exists>d. HandleRpcRequest demo_globals demo_context list_properties fresh_response root_cred
             demo_daemon
             = Some (d, demo_daemon)
           \<and> rsp_error (response d) = Some Success
           \<and> rsp_propertylist (response d)
               = Some [TListEntry ''command'' ''Command executed upon container start'',
                       TListEntry ''user'' ''Start command with given user''])"
proof -
  have r: "resolves (propertySet demo_globals)" "resolves (dataSet demo_globals)"
    by (simp_all add: resolves_def demo_globals_def demo_propertySet_def demo_dataSet_def)
  have v: "visible_entries (HIDDEN_VALUE demo_globals) (propertySet demo_globals)
             = [TListEntry ''command'' ''Command executed upon container start'',
                TListEntry ''user'' ''Start command with given user'']"
          "visible_entries (HIDDEN_VALUE demo_globals) (dataSet demo_globals)
             = [TListEntry ''state'' ''container state'']"
          "visible_entries 0x40000000 demo_propertySet
             = [TListEntry ''command'' ''Command executed upon container start'',
                TListEntry ''user'' ''Start command with given user'']"
    by (simp_all add: visible_entries_def entry_of_def demo_globals_def demo_propertySet_def
        demo_dataSet_def List.map_filter_simps hidden_demo)
  have s: "set_variants list_properties = [v_propertylist]"
    by (simp add: set_variants_def variants_def list_properties_def no_request_def)
  from listings_omit_hidden [of demo_globals fresh_response demo_daemon "0x40000000"
      demo_propertySet list_properties demo_context root_cred] r v s
  show ?thesis
    by (simp add: repeated_def fresh_response_def Clear_def)
qed

text \<open>
  Claim C9. When the volume holder has no volume of the name in a destroyvolume
  request, \<^verbatim>\<open>DestroyVolume\<close> reaches the construction of the \<^verbatim>\<open>VolumeDoesNotExist\<close> error
  and dereferences the null pointer there for the name: the handler ends in that
  dereference and does not return the \<^verbatim>\<open>VolumeDoesNotExist\<close> error with any message,
  and \<^verbatim>\<open>HandleRpcRequest\<close>, on a request whose first variant set is that destroyvolume,
  has no response.
\<close>

theorem DestroyVolume_absent_dereferences_null:
  assumes "vholder_Get (Vholder ctx) (req_name r) s = (Returned None, s1)"
  shows "DestroyVolume ctx r rsp cred s = ((NullDeref, rsp), s1)
    \<and> (\<forall>msg. fst (fst (DestroyVolume ctx r rsp cred s))
                 \<noteq> Returned (TError VolumeDoesNotExist msg))
    \<and> (\<forall>vars. set_variants req = v_destroyvolume # vars \<and> req_destroyvolume req = Some r
           \<longrightarrow> HandleRpcRequest g ctx req rsp' cred s = None)"
  using assms
  by (simp add: DestroyVolume_def after_def deref_def HandleRpcRequest_def try_first
      HandleRpcRequest_catch_def Let_def)

text \<open>
  The theorem of claim C9 on the volume \<^verbatim>\<open>v9\<close>, which the holder does not have.
\<close>

theorem DestroyVolume_absent_dereferences_null_witness:
  "vholder_Get (Vholder demo_context) (req_name (TContainerNameRequest ''v9'')) demo_daemon
     = (Returned None, demo_daemon)
   \<and> DestroyVolume demo_context (TContainerNameRequest ''v9'') fresh_response root_cred
        demo_daemon
       = ((NullDeref, fresh_response), demo_daemon)
   \<and> set_variants destroy_absent_volume = [v_destroyvolume]
   \<and> HandleRpcRequest demo_globals demo_context destroy_absent_volume fresh_response root_cred
        demo_daemon
       = None"
proof -
  have a: "vholder_Get (Vholder demo_context) (req_name (TContainerNameRequest ''v9''))
             demo_daemon = (Returned None, demo_daemon)"
    by (simp add: demo_context_def demo_Vholder_def demo_daemon_def)
  have s: "set_variants destroy_absent_volume = [v_destroyvolume]"
    by (simp add: set_variants_def variants_def destroy_absent_volume_def no_request_def)
  have r: "req_destroyvolume destroy_absent_volume = Some (TContainerNameRequest ''v9'')"
    by (simp add: destroy_absent_volume_def)
  from DestroyVolume_absent_dereferences_null [OF a, of fresh_response root_cred
      destroy_absent_volume demo_globals fresh_response] a s r
  show ?thesis by simp
qed


text \<open>
  The two get handlers leave the response as it was unless they succeed, and then set
  the payload to the string read.
\<close>

lemma GetContainerProperty_cases:
  "(\<not> succeeded (fst (fst (GetContainerProperty ctx r rsp cred s)))
      \<longrightarrow> snd (fst (GetContainerProperty ctx r rsp cred s)) = rsp)
   \<and> (succeeded (fst (fst (GetContainerProperty ctx r rsp cred s)))
      \<longrightarrow> (\<exists>c error v s1 s2.
            holder_Get (Cholder ctx) (getproperty_name r) s = (Returned (Some c), s1)
            \<and> container_GetProperty (Cholder ctx) c (getproperty_property r) s1 = (Returned (error, v), s2)
            \<and> GetContainerProperty ctx r rsp cred s
                = ((Returned error, rsp\<lparr>rsp_getproperty := Some v\<rparr>), s2)))"
  by (auto simp: GetContainerProperty_def after_def returns_def succeeded_def is_error_def
      split: outcome.splits option.splits prod.splits)

lemma GetContainerData_cases:
  "(\<not> succeeded (fst (fst (GetContainerData ctx r rsp cred s)))
      \<longrightarrow> snd (fst (GetContainerData ctx r rsp cred s)) = rsp)
   \<and> (succeeded (fst (fst (GetContainerData ctx r rsp cred s)))
      \<longrightarrow> (\<exists>c error v s1 s2.
            holder_Get (Cholder ctx) (getdata_name r) s = (Returned (Some c), s1)
            \<and> container_GetData (Cholder ctx) c (getdata_data r) s1 = (Returned (error, v), s2)
            \<and> GetContainerData ctx r rsp cred s
                = ((Returned error, rsp\<lparr>rsp_getdata := Some v\<rparr>), s2)))"
  by (auto simp: GetContainerData_def after_def returns_def succeeded_def is_error_def
      split: outcome.splits option.splits prod.splits)

text \<open>
  When a handler that writes only on success has not succeeded, the response returned
  is the one the handler was given, or the cleared one, with the error and the message.
\<close>

lemma catch_error_no_payload:
  assumes keep: "\<not> succeeded (fst (fst h)) \<longrightarrow> snd (fst h) = rsp0"
    and d: "HandleRpcRequest_catch req (h, send) = Some (d, s')"
    and e: "rsp_error (response d) \<noteq> Some Success"
  shows "(response d = rsp0\<lparr>rsp_error := rsp_error (response d),
                              rsp_errormsg := rsp_errormsg (response d)\<rparr>
          \<or> response d = Clear\<lparr>rsp_error := rsp_error (response d),
                              rsp_errormsg := rsp_errormsg (response d)\<rparr>)
         \<and> rsp_error (response d) \<noteq> None \<and> rsp_errormsg (response d) \<noteq> None"
proof (cases "fst (fst h)")
  case (Returned error)
  with d e have "is_error error"
    by (auto simp: HandleRpcRequest_catch_def finish_def Let_def is_error_def
        split: prod.splits)
  with Returned keep have "snd (fst h) = rsp0" by (simp add: succeeded_def)
  with Returned d show ?thesis
    by (auto simp: HandleRpcRequest_catch_def finish_def Let_def split: prod.splits)
next
  case (Thrown f)
  with d show ?thesis
    by (auto simp: HandleRpcRequest_catch_def finish_def Let_def split: prod.splits)
next
  case NullDeref
  with d show ?thesis
    by (auto simp: HandleRpcRequest_catch_def split: prod.splits)
qed

text \<open>
  Claim C10. \<^verbatim>\<open>GetContainerProperty\<close> and \<^verbatim>\<open>GetContainerData\<close> leave the response as it
  was unless the get operation has succeeded. So when \<^verbatim>\<open>HandleRpcRequest\<close>, on a request
  whose first variant set is getproperty or getdata, returns a response whose error is
  not \<^verbatim>\<open>Success\<close>, that response is the one passed in, or the cleared one, with an
  error kind and a message written into it, and it holds no getproperty and no getdata
  payload unless the response passed in did. For a container the holder does not have,
  the response returned is the one passed in with the error \<^verbatim>\<open>ContainerDoesNotExist\<close>
  and the message \<^verbatim>\<open>invalid name\<close>; and whenever the handler returns an error, the
  response returned is the one passed in with the kind and the message of that error.
\<close>

theorem get_payload_only_on_success:
  "(\<not> succeeded (fst (fst (GetContainerProperty ctx r rsp cred s)))
      \<longrightarrow> snd (fst (GetContainerProperty ctx r rsp cred s)) = rsp)
   \<and> (\<not> succeeded (fst (fst (GetContainerData ctx r' rsp cred s)))
      \<longrightarrow> snd (fst (GetContainerData ctx r' rsp cred s)) = rsp)
   \<and> (\<forall>vars d s'. set_variants req = v_getproperty # vars
         \<and> HandleRpcRequest g ctx req rsp cred s = Some (d, s')
         \<and> rsp_error (response d) \<noteq> Some Success
       \<longrightarrow> (\<exists>kind msg.
              response d = rsp\<lparr>rsp_error := Some kind, rsp_errormsg := Some msg\<rparr>
              \<or> response d = Clear\<lparr>rsp_error := Some kind, rsp_errormsg := Some msg\<rparr>)
           \<and> (rsp_getproperty rsp = None \<longrightarrow> rsp_getproperty (response d) = None)
           \<and> (rsp_getdata rsp = None \<longrightarrow> rsp_getdata (response d) = None))
   \<and> (\<forall>vars q s1. set_variants req = v_getproperty # vars \<and> req_getproperty req = Some q
         \<and> holder_Get (Cholder ctx) (getproperty_name q) s = (Returned None, s1)
       \<longrightarrow> map_option (\<lambda>d. response (fst d)) (HandleRpcRequest g ctx req rsp cred s)
             = Some (rsp\<lparr>rsp_error := Some ContainerDoesNotExist,
                          rsp_errormsg := Some ''invalid name''\<rparr>))
   \<and> (\<forall>vars q error. set_variants req = v_getproperty # vars \<and> req_getproperty req = Some q
         \<and> fst (fst (GetContainerProperty ctx q (rsp\<lparr>rsp_error := Some Unknown\<rparr>) cred s))
             = Returned error
         \<and> is_error error
       \<longrightarrow> map_option (\<lambda>d. response (fst d)) (HandleRpcRequest g ctx req rsp cred s)
             = Some (rsp\<lparr>rsp_error := Some (GetError error),
                          rsp_errormsg := Some (GetMsg error)\<rparr>))
   \<and> (\<forall>vars d s'. set_variants req = v_getdata # vars
         \<and> HandleRpcRequest g ctx req rsp cred s = Some (d, s')
         \<and> rsp_error (response d) \<noteq> Some Success
       \<longrightarrow> (\<exists>kind msg.
              response d = rsp\<lparr>rsp_error := Some kind, rsp_errormsg := Some msg\<rparr>
              \<or> response d = Clear\<lparr>rsp_error := Some kind, rsp_errormsg := Some msg\<rparr>)
           \<and> (rsp_getproperty rsp = None \<longrightarrow> rsp_getproperty (response d) = None)
           \<and> (rsp_getdata rsp = None \<longrightarrow> rsp_getdata (response d) = None))
   \<and> (\<forall>vars q s1. set_variants req = v_getdata # vars \<and> req_getdata req = Some q
         \<and> holder_Get (Cholder ctx) (getdata_name q) s = (Returned None, s1)
       \<longrightarrow> map_option (\<lambda>d. response (fst d)) (HandleRpcRequest g ctx req rsp cred s)
             = Some (rsp\<lparr>rsp_error := Some ContainerDoesNotExist,
                          rsp_errormsg := Some ''invalid name''\<rparr>))
   \<and> (\<forall>vars q error. set_variants req = v_getdata # vars \<and> req_getdata req = Some q
         \<and> fst (fst (GetContainerData ctx q (rsp\<lparr>rsp_error := Some Unknown\<rparr>) cred s))
             = Returned error
         \<and> is_error error
       \<longrightarrow> map_option (\<lambda>d. response (fst d)) (HandleRpcRequest g ctx req rsp cred s)
             = Some (rsp\<lparr>rsp_error := Some (GetError error),
                          rsp_errormsg := Some (GetMsg error)\<rparr>))"
proof -
  let ?rsp0 = "rsp\<lparr>rsp_error := Some Unknown\<rparr>"
  have hp: "\<not> succeeded (fst (fst (GetContainerProperty ctx r rsp cred s)))
      \<longrightarrow> snd (fst (GetContainerProperty ctx r rsp cred s)) = rsp"
    using GetContainerProperty_cases [of ctx r rsp cred s] by simp
  have hd: "\<not> succeeded (fst (fst (GetContainerData ctx r' rsp cred s)))
      \<longrightarrow> snd (fst (GetContainerData ctx r' rsp cred s)) = rsp"
    using GetContainerData_cases [of ctx r' rsp cred s] by simp
  have getproperty1: "(\<exists>kind msg.
              response d = rsp\<lparr>rsp_error := Some kind, rsp_errormsg := Some msg\<rparr>
              \<or> response d = Clear\<lparr>rsp_error := Some kind, rsp_errormsg := Some msg\<rparr>)
           \<and> (rsp_getproperty rsp = None \<longrightarrow> rsp_getproperty (response d) = None)
           \<and> (rsp_getdata rsp = None \<longrightarrow> rsp_getdata (response d) = None)"
    if a: "set_variants req = v_getproperty # vars
      \<and> HandleRpcRequest g ctx req rsp cred s = Some (d, s')
      \<and> rsp_error (response d) \<noteq> Some Success" for vars d s'
  proof -
    from a have v: "set_variants req = v_getproperty # vars"
      and h: "HandleRpcRequest g ctx req rsp cred s = Some (d, s')"
      and e: "rsp_error (response d) \<noteq> Some Success" by simp_all
    obtain q where q: "req_getproperty req = Some q"
      using set_variants_head [OF v] by auto
    from h have c: "HandleRpcRequest_catch req (GetContainerProperty ctx q ?rsp0 cred s, True)
                      = Some (d, s')"
      by (simp add: HandleRpcRequest_def try_first v q)
    from GetContainerProperty_cases [of ctx q ?rsp0 cred s]
    have keep: "\<not> succeeded (fst (fst (GetContainerProperty ctx q ?rsp0 cred s)))
                  \<longrightarrow> snd (fst (GetContainerProperty ctx q ?rsp0 cred s)) = ?rsp0" by simp
    from catch_error_no_payload [OF keep c e]
    obtain kind msg where km: "rsp_error (response d) = Some kind"
        "rsp_errormsg (response d) = Some msg"
      and k: "response d = ?rsp0\<lparr>rsp_error := Some kind, rsp_errormsg := Some msg\<rparr>
              \<or> response d = Clear\<lparr>rsp_error := Some kind, rsp_errormsg := Some msg\<rparr>"
      by auto
    from k have k': "response d = rsp\<lparr>rsp_error := Some kind, rsp_errormsg := Some msg\<rparr>
              \<or> response d = Clear\<lparr>rsp_error := Some kind, rsp_errormsg := Some msg\<rparr>"
      by simp
    then have "rsp_getproperty (response d) = rsp_getproperty rsp
               \<or> rsp_getproperty (response d) = None"
      by (auto simp: Clear_def)
    moreover from k' have "rsp_getdata (response d) = rsp_getdata rsp
               \<or> rsp_getdata (response d) = None"
      by (auto simp: Clear_def)
    ultimately show ?thesis using k' by auto
  qed
  have getproperty2: "map_option (\<lambda>d. response (fst d)) (HandleRpcRequest g ctx req rsp cred s)
             = Some (rsp\<lparr>rsp_error := Some ContainerDoesNotExist,
                          rsp_errormsg := Some ''invalid name''\<rparr>)"
    if a: "set_variants req = v_getproperty # vars \<and> req_getproperty req = Some q
         \<and> holder_Get (Cholder ctx) (getproperty_name q) s = (Returned None, s1)" for vars q s1
  proof -
    from a have "set_variants req = v_getproperty # vars" "req_getproperty req = Some q"
      "holder_Get (Cholder ctx) (getproperty_name q) s = (Returned None, s1)" by simp_all
    then show ?thesis
      by (simp add: HandleRpcRequest_def try_first HandleRpcRequest_catch_def finish_def
          Let_def GetContainerProperty_def after_def returns_def)
  qed
  have getproperty3: "map_option (\<lambda>d. response (fst d)) (HandleRpcRequest g ctx req rsp cred s)
             = Some (rsp\<lparr>rsp_error := Some (GetError error),
                          rsp_errormsg := Some (GetMsg error)\<rparr>)"
    if a: "set_variants req = v_getproperty # vars \<and> req_getproperty req = Some q
         \<and> fst (fst (GetContainerProperty ctx q ?rsp0 cred s)) = Returned error \<and> is_error error"
    for vars q error
  proof -
    from a have v: "set_variants req = v_getproperty # vars" and q: "req_getproperty req = Some q"
      and r: "fst (fst (GetContainerProperty ctx q ?rsp0 cred s)) = Returned error"
      and e: "is_error error" by simp_all
    from r e GetContainerProperty_cases [of ctx q ?rsp0 cred s]
    have "snd (fst (GetContainerProperty ctx q ?rsp0 cred s)) = ?rsp0"
      by (simp add: succeeded_def)
    with r obtain s2 where "GetContainerProperty ctx q ?rsp0 cred s = ((Returned error, ?rsp0), s2)"
      by (metis prod.collapse)
    then show ?thesis
      by (simp add: HandleRpcRequest_def try_first v q HandleRpcRequest_catch_def finish_def
          Let_def)
  qed
  have getdata1: "(\<exists>kind msg.
              response d = rsp\<lparr>rsp_error := Some kind, rsp_errormsg := Some msg\<rparr>
              \<or> response d = Clear\<lparr>rsp_error := Some kind, rsp_errormsg := Some msg\<rparr>)
           \<and> (rsp_getproperty rsp = None \<longrightarrow> rsp_getproperty (response d) = None)
           \<and> (rsp_getdata rsp = None \<longrightarrow> rsp_getdata (response d) = None)"
    if a: "set_variants req = v_getdata # vars
      \<and> HandleRpcRequest g ctx req rsp cred s = Some (d, s')
      \<and> rsp_error (response d) \<noteq> Some Success" for vars d s'
  proof -
    from a have v: "set_variants req = v_getdata # vars"
      and h: "HandleRpcRequest g ctx req rsp cred s = Some (d, s')"
      and e: "rsp_error (response d) \<noteq> Some Success" by simp_all
    obtain q where q: "req_getdata req = Some q"
      using set_variants_head [OF v] by auto
    from h have c: "HandleRpcRequest_catch req (GetContainerData ctx q ?rsp0 cred s, True)
                      = Some (d, s')"
      by (simp add: HandleRpcRequest_def try_first v q)
    from GetContainerData_cases [of ctx q ?rsp0 cred s]
    have keep: "\<not> succeeded (fst (fst (GetContainerData ctx q ?rsp0 cred s)))
                  \<longrightarrow> snd (fst (GetContainerData ctx q ?rsp0 cred s)) = ?rsp0" by simp
    from catch_error_no_payload [OF keep c e]
    obtain kind msg where km: "rsp_error (response d) = Some kind"
        "rsp_errormsg (response d) = Some msg"
      and k: "response d = ?rsp0\<lparr>rsp_error := Some kind, rsp_errormsg := Some msg\<rparr>
              \<or> response d = Clear\<lparr>rsp_error := Some kind, rsp_errormsg := Some msg\<rparr>"
      by auto
    from k have k': "response d = rsp\<lparr>rsp_error := Some kind, rsp_errormsg := Some msg\<rparr>
              \<or> response d = Clear\<lparr>rsp_error := Some kind, rsp_errormsg := Some msg\<rparr>"
      by simp
    then have "rsp_getproperty (response d) = rsp_getproperty rsp
               \<or> rsp_getproperty (response d) = None"
      by (auto simp: Clear_def)
    moreover from k' have "rsp_getdata (response d) = rsp_getdata rsp
               \<or> rsp_getdata (response d) = None"
      by (auto simp: Clear_def)
    ultimately show ?thesis using k' by auto
  qed
  have getdata2: "map_option (\<lambda>d. response (fst d)) (HandleRpcRequest g ctx req rsp cred s)
             = Some (rsp\<lparr>rsp_error := Some ContainerDoesNotExist,
                          rsp_errormsg := Some ''invalid name''\<rparr>)"
    if a: "set_variants req = v_getdata # vars \<and> req_getdata req = Some q
         \<and> holder_Get (Cholder ctx) (getdata_name q) s = (Returned None, s1)" for vars q s1
  proof -
    from a have "set_variants req = v_getdata # vars" "req_getdata req = Some q"
      "holder_Get (Cholder ctx) (getdata_name q) s = (Returned None, s1)" by simp_all
    then show ?thesis
      by (simp add: HandleRpcRequest_def try_first HandleRpcRequest_catch_def finish_def
          Let_def GetContainerData_def after_def returns_def)
  qed
  have getdata3: "map_option (\<lambda>d. response (fst d)) (HandleRpcRequest g ctx req rsp cred s)
             = Some (rsp\<lparr>rsp_error := Some (GetError error),
                          rsp_errormsg := Some (GetMsg error)\<rparr>)"
    if a: "set_variants req = v_getdata # vars \<and> req_getdata req = Some q
         \<and> fst (fst (GetContainerData ctx q ?rsp0 cred s)) = Returned error \<and> is_error error"
    for vars q error
  proof -
    from a have v: "set_variants req = v_getdata # vars" and q: "req_getdata req = Some q"
      and r: "fst (fst (GetContainerData ctx q ?rsp0 cred s)) = Returned error"
      and e: "is_error error" by simp_all
    from r e GetContainerData_cases [of ctx q ?rsp0 cred s]
    have "snd (fst (GetContainerData ctx q ?rsp0 cred s)) = ?rsp0"
      by (simp add: succeeded_def)
    with r obtain s2 where "GetContainerData ctx q ?rsp0 cred s = ((Returned error, ?rsp0), s2)"
      by (metis prod.collapse)
    then show ?thesis
      by (simp add: HandleRpcRequest_def try_first v q HandleRpcRequest_catch_def finish_def
          Let_def)
  qed
  from hp hd getproperty1 getproperty2 getproperty3 getdata1 getdata2 getdata3
  show ?thesis by blast
qed


text \<open>
  The theorem of claim C10 on a property and a data that cannot be read and on a
  container that does not exist.
\<close>

theorem get_payload_only_on_success_witness:
  "\<not> succeeded (fst (fst (GetContainerProperty demo_context
        (TContainerGetPropertyRequest ''a'' ''nope'') fresh_response root_cred demo_daemon)))
   \<and> snd (fst (GetContainerProperty demo_context
        (TContainerGetPropertyRequest ''a'' ''nope'') fresh_response root_cred demo_daemon))
       = fresh_response
   \<and> \<not> succeeded (fst (fst (GetContainerData demo_context
        (TContainerGetDataRequest ''a'' ''nope'') fresh_response root_cred demo_daemon)))
   \<and> snd (fst (GetContainerData demo_context
        (TContainerGetDataRequest ''a'' ''nope'') fresh_response root_cred demo_daemon))
       = fresh_response
   \<and> set_variants get_unknown_property = [v_getproperty]
   \<and> rsp_getproperty fresh_response = None
   \<and> (\<exists>d. HandleRpcRequest demo_globals demo_context get_unknown_property fresh_response
               root_cred demo_daemon = Some (d, demo_daemon)
           \<and> rsp_error (response d) = Some InvalidValue
           \<and> rsp_errormsg (response d) = Some ''invalid property''
           \<and> rsp_getproperty (response d) = None)
   \<and> set_variants get_unknown_data = [v_getdata]
   \<and> rsp_getdata fresh_response = None
   \<and> (\<exists>d. HandleRpcRequest demo_globals demo_context get_unknown_data fresh_response
               root_cred demo_daemon = Some (d, demo_daemon)
           \<and> rsp_error (response d) = Some InvalidValue
           \<and> rsp_errormsg (response d) = Some ''invalid data''
           \<and> rsp_getdata (response d) = None)
   \<and> set_variants get_property_of_absent = [v_getproperty]
   \<and> map_option (\<lambda>d. response (fst d))
        (HandleRpcRequest demo_globals demo_context get_property_of_absent fresh_response
           root_cred demo_daemon)
       = Some (fresh_response\<lparr>rsp_error := Some ContainerDoesNotExist,
                               rsp_errormsg := Some ''invalid name''\<rparr>)
   \<and> set_variants get_data_of_absent = [v_getdata]
   \<and> map_option (\<lambda>d. response (fst d))
        (HandleRpcRequest demo_globals demo_context get_data_of_absent fresh_response
           root_cred demo_daemon)
       = Some (fresh_response\<lparr>rsp_error := Some ContainerDoesNotExist,
                               rsp_errormsg := Some ''invalid name''\<rparr>)"
proof -
  have p: "\<not> succeeded (fst (fst (GetContainerProperty demo_context
             (TContainerGetPropertyRequest ''a'' ''nope'') fresh_response root_cred
             demo_daemon)))"
    by (simp add: GetContainerProperty_def after_def returns_def demo_context_def
        demo_Cholder_def demo_daemon_def succeeded_def is_error_def)
  have d: "\<not> succeeded (fst (fst (GetContainerData demo_context
             (TContainerGetDataRequest ''a'' ''nope'') fresh_response root_cred demo_daemon)))"
    by (simp add: GetContainerData_def after_def returns_def demo_context_def
        demo_Cholder_def demo_daemon_def succeeded_def is_error_def)
  have s: "set_variants get_unknown_property = [v_getproperty]"
      "set_variants get_unknown_data = [v_getdata]"
      "set_variants get_property_of_absent = [v_getproperty]"
      "set_variants get_data_of_absent = [v_getdata]"
    by (simp_all add: set_variants_def variants_def get_unknown_property_def
        get_unknown_data_def get_property_of_absent_def get_data_of_absent_def no_request_def)
  have q: "req_getproperty get_property_of_absent
             = Some (TContainerGetPropertyRequest ''zz'' ''command'')"
      "req_getdata get_data_of_absent = Some (TContainerGetDataRequest ''zz'' ''state'')"
    by (simp_all add: get_property_of_absent_def get_data_of_absent_def)
  have n: "holder_Get (Cholder demo_context) ''zz'' demo_daemon = (Returned None, demo_daemon)"
    by (simp add: demo_context_def demo_Cholder_def demo_daemon_def)
  have f: "rsp_getproperty fresh_response = None" "rsp_getdata fresh_response = None"
    by (simp_all add: fresh_response_def Clear_def)
  obtain dp where dp:
      "HandleRpcRequest demo_globals demo_context get_unknown_property fresh_response root_cred
         demo_daemon = Some (dp, demo_daemon)"
      "rsp_error (response dp) = Some InvalidValue"
      "rsp_errormsg (response dp) = Some ''invalid property''"
    by (simp add: HandleRpcRequest_def HandleRpcRequest_try_def HandleRpcRequest_catch_def
        finish_def Let_def GetContainerProperty_def after_def returns_def
        get_unknown_property_def no_request_def demo_context_def demo_Cholder_def
        demo_daemon_def is_error_def)
  obtain dd where dd:
      "HandleRpcRequest demo_globals demo_context get_unknown_data fresh_response root_cred
         demo_daemon = Some (dd, demo_daemon)"
      "rsp_error (response dd) = Some InvalidValue"
      "rsp_errormsg (response dd) = Some ''invalid data''"
    by (simp add: HandleRpcRequest_def HandleRpcRequest_try_def HandleRpcRequest_catch_def
        finish_def Let_def GetContainerData_def after_def returns_def
        get_unknown_data_def no_request_def demo_context_def demo_Cholder_def
        demo_daemon_def is_error_def)
  have np: "rsp_getproperty (response dp) = None"
    using get_payload_only_on_success [of demo_context
        "TContainerGetPropertyRequest ''a'' ''nope''" fresh_response root_cred demo_daemon
        "TContainerGetDataRequest ''a'' ''nope''" get_unknown_property demo_globals]
      s f dp by simp
  have nd: "rsp_getdata (response dd) = None"
    using get_payload_only_on_success [of demo_context
        "TContainerGetPropertyRequest ''a'' ''nope''" fresh_response root_cred demo_daemon
        "TContainerGetDataRequest ''a'' ''nope''" get_unknown_data demo_globals]
      s f dd by simp
  from get_payload_only_on_success [of demo_context "TContainerGetPropertyRequest ''a'' ''nope''"
      fresh_response root_cred demo_daemon "TContainerGetDataRequest ''a'' ''nope''"
      get_property_of_absent demo_globals]
    get_payload_only_on_success [of demo_context "TContainerGetPropertyRequest ''a'' ''nope''"
      fresh_response root_cred demo_daemon "TContainerGetDataRequest ''a'' ''nope''"
      get_data_of_absent demo_globals]
    p d s q n f dp dd np nd
  show ?thesis by simp
qed

section \<open>Results about the typed accessors\<close>

lemma accessor_cases:
  "SYNTHESIZE_ACCESSOR get zero h property lg
     = (if IsDefault h property \<and> ParentDefault h property then
          (case ParentProp h of
             None \<Rightarrow> NullDeref
           | Some parent \<Rightarrow> SYNTHESIZE_ACCESSOR get zero parent property lg)
        else
          (case get h property zero of
             (error, v) \<Rightarrow>
               Returned (v, if is_error error
                            then lg @ [(error, ''Can't get property '' @ property)]
                            else lg)))"
  by (cases h) simp

lemma typed_accessor_macro: "typed_accessor get zero (SYNTHESIZE_ACCESSOR get zero)"
  unfolding typed_accessor_def
proof (intro allI conjI impI)
  fix h property lg
  assume "IsDefault h property \<and> ParentDefault h property"
  then show "SYNTHESIZE_ACCESSOR get zero h property lg
     = (case ParentProp h of None \<Rightarrow> NullDeref
        | Some parent \<Rightarrow> SYNTHESIZE_ACCESSOR get zero parent property lg)"
    by (subst accessor_cases) simp
next
  fix h property lg
  assume a: "\<not> (IsDefault h property \<and> ParentDefault h property)
           \<and> is_error (fst (get h property zero)) \<and> keeps_on_error (get h)"
  then have "snd (get h property zero) = zero"
    by (simp add: keeps_on_error_def)
  with a show "SYNTHESIZE_ACCESSOR get zero h property lg
     = Returned (zero, lg @ [(fst (get h property zero), ''Can't get property '' @ property)])"
    by (subst accessor_cases) (auto split: prod.splits)
next
  fix h property lg
  assume "\<not> (IsDefault h property \<and> ParentDefault h property)
           \<and> \<not> is_error (fst (get h property zero))"
  then show "SYNTHESIZE_ACCESSOR get zero h property lg = Returned (snd (get h property zero), lg)"
    by (subst accessor_cases) (auto split: prod.splits)
qed

text \<open>
  Claim C6. Each of \<^verbatim>\<open>GetString\<close>, \<^verbatim>\<open>GetBool\<close>, \<^verbatim>\<open>GetInt\<close> and \<^verbatim>\<open>GetUint\<close>, for every
  holder and property: when the slot is default and \<^verbatim>\<open>ParentDefault\<close> holds, returns
  what the same accessor returns on the holder of the parent container; otherwise,
  when the typed read of the variant set fails (leaving the caller's variable as it
  was), logs the error with \<^verbatim>\<open>Can't get property\<close> and the name and returns the zero
  value of the type; otherwise returns the value read and logs nothing.
\<close>

theorem typed_accessors_behave:
  "typed_accessor VariantSet_GetString [] GetString
   \<and> typed_accessor VariantSet_GetBool False GetBool
   \<and> typed_accessor VariantSet_GetInt 0 GetInt
   \<and> typed_accessor VariantSet_GetUint 0 GetUint"
  by (simp add: GetString_def GetBool_def GetInt_def GetUint_def typed_accessor_macro)

lemma holder_sel:
  "IsDefault (demo_holder flags static slots parent) = (\<lambda>property. slots property = None)"
  "ParentDefault (demo_holder flags static slots parent)
     = (\<lambda>property. flags property AND PARENT_DEF_PROPERTY \<noteq> 0)"
  "ParentProp (demo_holder flags static slots parent) = parent"
  "VariantSet_GetBool (demo_holder flags static slots parent)
     = (\<lambda>property. parse_with parse_bool
          (case slots property of Some s \<Rightarrow> s | None \<Rightarrow> static property))"
  by (simp_all add: demo_holder_def Let_def)

lemma keeps_parse_with: "keeps_on_error (\<lambda>property. parse_with parse (raw property))"
  by (auto simp: keeps_on_error_def parse_with_def is_error_def TError_Success_def
      split: sum.splits)

text \<open>
  The theorem of claim C6 on \<^verbatim>\<open>GetBool\<close>: \<^verbatim>\<open>isolate\<close> of \<^verbatim>\<open>a/b\<close> is read from the
  parent \<^verbatim>\<open>a\<close>, where it is \<^verbatim>\<open>true\<close>; \<^verbatim>\<open>respawn\<close> of \<^verbatim>\<open>a\<close> does not parse, is
  logged and read as false; \<^verbatim>\<open>respawn\<close> of \<^verbatim>\<open>a/b\<close> is the static default.
\<close>

theorem typed_accessors_behave_witness:
  "GetBool holder_ab ''isolate'' [] = GetBool holder_a ''isolate'' []
   \<and> GetBool holder_a ''isolate'' [] = Returned (True, [])
   \<and> GetBool holder_a ''respawn'' []
       = Returned (False, [(TError InvalidValue ''invalid boolean value maybe'',
                            ''Can't get property respawn'')])
   \<and> GetBool holder_ab ''respawn'' [] = Returned (False, [])"
proof -
  have t: "typed_accessor VariantSet_GetBool False GetBool"
    using typed_accessors_behave by simp
  have k: "keeps_on_error (VariantSet_GetBool holder_a)"
    by (simp add: holder_a_def holder_sel keeps_parse_with)
  have 1: "IsDefault holder_ab ''isolate'' \<and> ParentDefault holder_ab ''isolate''"
    by (simp add: holder_ab_def holder_sel demo_flags_def PARENT_DEF_PROPERTY_def)
  have 2: "\<not> (IsDefault holder_a ''isolate'' \<and> ParentDefault holder_a ''isolate'')
           \<and> \<not> is_error (fst (VariantSet_GetBool holder_a ''isolate'' False))"
    by (simp add: holder_a_def holder_sel parse_with_def parse_bool_def is_error_def
        TError_Success_def)
  have 3: "\<not> (IsDefault holder_a ''respawn'' \<and> ParentDefault holder_a ''respawn'')
           \<and> is_error (fst (VariantSet_GetBool holder_a ''respawn'' False))"
    by (simp add: holder_a_def holder_sel parse_with_def parse_bool_def is_error_def)
  have 4: "\<not> (IsDefault holder_ab ''respawn'' \<and> ParentDefault holder_ab ''respawn'')
           \<and> \<not> is_error (fst (VariantSet_GetBool holder_ab ''respawn'' False))"
    by (simp add: holder_ab_def holder_sel parse_with_def parse_bool_def is_error_def
        TError_Success_def demo_flags_def demo_static_def)
  have p: "ParentProp holder_ab = Some holder_a"
    by (simp add: holder_ab_def holder_sel)
  have v: "VariantSet_GetBool holder_a ''isolate'' False = (TError_Success, True)"
      "fst (VariantSet_GetBool holder_a ''respawn'' False)
         = TError InvalidValue ''invalid boolean value maybe''"
      "VariantSet_GetBool holder_ab ''respawn'' False = (TError_Success, False)"
    by (simp_all add: holder_a_def holder_ab_def holder_sel parse_with_def parse_bool_def
        demo_static_def)
  from t [unfolded typed_accessor_def] 1 2 3 4 k p v show ?thesis
    by simp
qed

end
